theory Spec2Isabelle
  imports Main "HOL-Library.Sublist"
begin

section \<open>The camera client of aio\_iotccsdk (camera.py)\<close>

text \<open>
  A shallow embedding of \<^verbatim>\<open>CameraClient\<close>. The attributes of the client object are a
  record that every method takes and returns; the two collaborators the module only calls
  (the \<^verbatim>\<open>IpcProvider\<close> transport and the \<^verbatim>\<open>VideoInferenceIterator\<close> decoder) are a
  record of functions; every call to a collaborator and every logger call is appended to
  an event list, so that "which request was sent, and when" is a property of the result.
  A Python exception is the \<open>Inl\<close> branch of the result.
\<close>

subsection \<open>Module constants\<close>

definition DOCKER_IP_PREFIX :: string where
  "DOCKER_IP_PREFIX = ''172.17''"

definition NULL_IP :: string where
  "NULL_IP = ''0.0.0.0''"

definition LOOPBACK_IP :: string where
  "LOOPBACK_IP = ''127.0.0.1''"

subsection \<open>Python string and list primitives\<close>

text \<open>
  Strings are lists of 8-bit characters; the tokens, addresses and URLs the module handles
  are ASCII. \<open>str_in a b\<close> is Python's \<^verbatim>\<open>a in b\<close> on strings (substring test).
\<close>

fun str_in :: "string \<Rightarrow> string \<Rightarrow> bool" where
  "str_in a [] = (a = [])"
| "str_in a (c # cs) = (prefix a (c # cs) \<or> str_in a cs)"

text \<open>\<^verbatim>\<open>s.rindex(c)\<close> for a one-character needle: the last position of \<open>c\<close>, and
  \<open>None\<close> where Python raises ValueError.\<close>

fun rindex :: "string \<Rightarrow> char \<Rightarrow> nat option" where
  "rindex [] ch = None"
| "rindex (c # cs) ch =
     (case rindex cs ch of
        Some i \<Rightarrow> Some (Suc i)
      | None \<Rightarrow> if c = ch then Some 0 else None)"

text \<open>\<^verbatim>\<open>s.replace(old, new)\<close>: every non-overlapping occurrence, scanning from the left.\<close>

function replace :: "string \<Rightarrow> string \<Rightarrow> string \<Rightarrow> string" where
  "replace s old new =
     (if old = [] then new @ concat (map (\<lambda>c. c # new) s)
      else if s = [] then []
      else if prefix old s then new @ replace (drop (length old) s) old new
      else hd s # replace (tl s) old new)"
  by pat_completeness auto
termination
  by (relation "measure (\<lambda>(s, old, new). length s)") auto

declare replace.simps [simp del]

text \<open>\<^verbatim>\<open>s.lower()\<close> on ASCII: only the letters A to Z change.\<close>

definition lower_char :: "char \<Rightarrow> char" where
  "lower_char c =
     (case map_of (zip ''ABCDEFGHIJKLMNOPQRSTUVWXYZ'' ''abcdefghijklmnopqrstuvwxyz'') c of
        Some d \<Rightarrow> d
      | None \<Rightarrow> c)"

definition lower :: "string \<Rightarrow> string" where
  "lower s = map lower_char s"

text \<open>\<^verbatim>\<open>xs.index(x)\<close>: the first position of \<open>x\<close>, and \<open>None\<close> where Python raises
  ValueError.\<close>

fun index :: "'a list \<Rightarrow> 'a \<Rightarrow> nat option" where
  "index [] x = None"
| "index (y # ys) x = (if y = x then Some 0 else map_option Suc (index ys x))"

text \<open>\<^verbatim>\<open>xs[i]\<close> for a Python integer \<open>i\<close>: a negative \<open>i\<close> is taken from the end
  of the list; \<open>None\<close> where Python raises IndexError.\<close>

definition getitem :: "'a list \<Rightarrow> int \<Rightarrow> 'a option" where
  "getitem xs i =
     (if 0 \<le> i \<and> i < int (length xs) then Some (xs ! nat i)
      else if i < 0 \<and> - int (length xs) \<le> i then Some (xs ! nat (int (length xs) + i))
      else None)"

subsection \<open>Exceptions\<close>

text \<open>
  The exceptions that can travel through the module. \<open>Transport_error\<close> stands for
  whatever the transport or the decoder raises from the \<^verbatim>\<open>Exception\<close> hierarchy. The last
  three are the exceptions that derive from \<^verbatim>\<open>BaseException\<close> only, which a clause
  \<^verbatim>\<open>except Exception\<close> does not catch.
\<close>

datatype exn =
    EOFError string
  | ValueError
  | IndexError
  | TypeError
  | AttributeError
  | UnboundLocalError string
  | Transport_error string
  | KeyboardInterrupt
  | CancelledError
  | SystemExit

fun is_Exception :: "exn \<Rightarrow> bool" where
  "is_Exception KeyboardInterrupt = False"
| "is_Exception CancelledError = False"
| "is_Exception SystemExit = False"
| "is_Exception e = True"

subsection \<open>Requests, responses and the event trace\<close>

text \<open>The payload of \<^verbatim>\<open>POST /video\<close>, with the keys of the source's dictionary.\<close>

record video_payload =
  resolutionSelectVal :: nat
  encodeModeSelectVal :: nat
  bitRateSelectVal :: nat
  fpsSelectVal :: nat
  displayOut :: int

datatype payload =
    Empty_payload
  | Video_payload video_payload
  | Switch_payload bool
  | Vam_switch_payload bool string

text \<open>
  A response is a mapping that carries the keys the code reads without a test; the only
  key the code tests for is \<^verbatim>\<open>url\<close>, which is therefore optional. The selection indices of
  a \<^verbatim>\<open>GET /video\<close> response are primed, the unprimed names being the payload's.
\<close>

record response =
  status :: bool
  url :: "string option"
  Error :: string
  Data :: string
  resolution :: "string list"
  resolutionSelectVal' :: int
  encodeMode :: "string list"
  encodeModeSelectVal' :: int
  bitRate :: "string list"
  bitRateSelectVal' :: int
  fps :: "int list"
  fpsSelectVal' :: int
  displayOut' :: int

datatype pyval =
    PNone
  | PStr string
  | PInt int
  | PStrs "string list"
  | PInts "int list"
  | PDict response

datatype level = INFO | ERROR

text \<open>
  \<open>Log lv fmt v\<close> is \<^verbatim>\<open>logger.info(fmt % v)\<close> or \<^verbatim>\<open>logger.error(fmt % v)\<close>;
  \<open>Log_exception e\<close> is \<^verbatim>\<open>logger.exception(e)\<close>.
\<close>

datatype event =
    Connect
  | Logout
  | Get string
  | Post string payload
  | Log level string pyval
  | Log_exception exn
  | New_iterator int int
  | Start string
  | Stop

text \<open>
  The collaborators, each call of which may raise. \<open>dev_connect\<close>, \<open>dec_start\<close> and
  \<open>dec_stop\<close> give the exception raised, if any; \<open>dev_get\<close> and \<open>dev_post\<close> give the
  exception or the response; \<open>dev_logout\<close> gives the exception or the documented boolean.
\<close>

record device =
  ip_address :: string
  dev_connect :: "exn option"
  dev_get :: "string \<Rightarrow> exn + response"
  dev_post :: "string \<Rightarrow> payload \<Rightarrow> exn + response"
  dev_logout :: "exn + bool"
  dec_start :: "string \<Rightarrow> exn option"
  dec_stop :: "exn option"

subsection \<open>The client object\<close>

record camera_client =
  preview_running :: bool
  preview_url :: "string option"
  vam_running :: bool
  vam_url :: "string option"
  record_running :: bool
  resolutions :: "string list"
  encodetype :: "string list"
  bitrates :: "string list"
  framerates :: "int list"
  cur_resolution :: string
  cur_codec :: string
  cur_bitrate :: string
  cur_framerate :: int
  display_out :: int

text \<open>\<^verbatim>\<open>CameraClient.__init__\<close>.\<close>

definition init :: camera_client where
  "init = \<lparr> preview_running = False, preview_url = Some [], vam_running = False,
            vam_url = Some [], record_running = False, resolutions = [], encodetype = [],
            bitrates = [], framerates = [], cur_resolution = [], cur_codec = [],
            cur_bitrate = [], cur_framerate = 0, display_out = 0 \<rparr>"

type_synonym 'a result = "(exn + 'a) \<times> camera_client \<times> event list"

subsection \<open>configure\_preview\<close>

text \<open>
  One of the four \<^verbatim>\<open>if value and caps and value in caps: ... else: ...\<close> blocks of
  \<^verbatim>\<open>configure_preview\<close>. \<open>truthy\<close> is Python's truth value of the requested value
  (a non-empty string, a non-zero integer); an absent argument is \<^verbatim>\<open>None\<close>, which is
  false. \<open>None\<close> as a result is the ValueError of \<^verbatim>\<open>list.index\<close>.
\<close>

definition select_index :: "('a \<Rightarrow> bool) \<Rightarrow> 'a option \<Rightarrow> 'a list \<Rightarrow> 'a \<Rightarrow> nat option" where
  "select_index truthy req caps cur =
     (case req of
        None \<Rightarrow> index caps cur
      | Some v \<Rightarrow>
          if truthy v \<and> caps \<noteq> [] \<and> v \<in> set caps then index caps v else index caps cur)"

text \<open>The \<^verbatim>\<open>display_out not in [0, 1]\<close> block: the value submitted and what is logged.\<close>

definition select_display_out :: "camera_client \<Rightarrow> int option \<Rightarrow> int \<times> event list" where
  "select_display_out s req =
     (case req of
        None \<Rightarrow>
          (display_out s, [Log ERROR ''Invalid value: display_out should 0/1 got: %s'' PNone])
      | Some d \<Rightarrow>
          if d = 0 \<or> d = 1 then (d, [])
          else (display_out s,
                [Log ERROR ''Invalid value: display_out should 0/1 got: %s'' (PInt d)]))"

text \<open>The body of \<^verbatim>\<open>if response["status"]:\<close>, five compare-assign-log steps in order.\<close>

definition mirror_resolution :: "video_payload \<Rightarrow> camera_client \<Rightarrow> camera_client \<times> event list" where
  "mirror_resolution pl s =
     (let v = resolutions s ! resolutionSelectVal pl in
      if cur_resolution s \<noteq> v
      then (s\<lparr>cur_resolution := v\<rparr>, [Log INFO ''resolution now: %s'' (PStr v)])
      else (s, []))"

definition mirror_codec :: "video_payload \<Rightarrow> camera_client \<Rightarrow> camera_client \<times> event list" where
  "mirror_codec pl s =
     (let v = encodetype s ! encodeModeSelectVal pl in
      if cur_codec s \<noteq> v
      then (s\<lparr>cur_codec := v\<rparr>, [Log INFO ''encodetype now: %s'' (PStr v)])
      else (s, []))"

definition mirror_bitrate :: "video_payload \<Rightarrow> camera_client \<Rightarrow> camera_client \<times> event list" where
  "mirror_bitrate pl s =
     (let v = bitrates s ! bitRateSelectVal pl in
      if cur_bitrate s \<noteq> v
      then (s\<lparr>cur_bitrate := v\<rparr>, [Log INFO ''bitrate now : %s'' (PStr v)])
      else (s, []))"

definition mirror_framerate :: "video_payload \<Rightarrow> camera_client \<Rightarrow> camera_client \<times> event list" where
  "mirror_framerate pl s =
     (let v = framerates s ! fpsSelectVal pl in
      if cur_framerate s \<noteq> v
      then (s\<lparr>cur_framerate := v\<rparr>, [Log INFO ''framerate now: %s'' (PInt v)])
      else (s, []))"

definition mirror_display_out :: "video_payload \<Rightarrow> camera_client \<Rightarrow> camera_client \<times> event list" where
  "mirror_display_out pl s =
     (let v = displayOut pl in
      if display_out s \<noteq> v
      then (s\<lparr>display_out := v\<rparr>, [Log INFO ''display_out now: %s'' (PInt v)])
      else (s, []))"

definition mirror :: "video_payload \<Rightarrow> camera_client \<Rightarrow> camera_client \<times> event list" where
  "mirror pl s =
     (case mirror_resolution pl s of (s1, e1) \<Rightarrow>
      case mirror_codec pl s1 of (s2, e2) \<Rightarrow>
      case mirror_bitrate pl s2 of (s3, e3) \<Rightarrow>
      case mirror_framerate pl s3 of (s4, e4) \<Rightarrow>
      case mirror_display_out pl s4 of (s5, e5) \<Rightarrow>
        (s5, e1 @ e2 @ e3 @ e4 @ e5))"

definition configure_preview ::
  "device \<Rightarrow> camera_client \<Rightarrow> string option \<Rightarrow> string option \<Rightarrow> string option \<Rightarrow>
   int option \<Rightarrow> int option \<Rightarrow> bool result" where
  "configure_preview dev s resolution_req encode_req bitrate_req framerate_req display_out_req =
     (case select_index (\<lambda>v. v \<noteq> []) resolution_req (resolutions s) (cur_resolution s) of
        None \<Rightarrow> (Inl ValueError, s, [])
      | Some res_i \<Rightarrow>
     (case select_index (\<lambda>v. v \<noteq> []) encode_req (encodetype s) (cur_codec s) of
        None \<Rightarrow> (Inl ValueError, s, [])
      | Some enc_i \<Rightarrow>
     (case select_index (\<lambda>v. v \<noteq> []) bitrate_req (bitrates s) (cur_bitrate s) of
        None \<Rightarrow> (Inl ValueError, s, [])
      | Some bit_i \<Rightarrow>
     (case select_index (\<lambda>v. v \<noteq> 0) framerate_req (framerates s) (cur_framerate s) of
        None \<Rightarrow> (Inl ValueError, s, [])
      | Some fps_i \<Rightarrow>
     (case select_display_out s display_out_req of (dout, ev) \<Rightarrow>
        (let pl = \<lparr> resolutionSelectVal = res_i, encodeModeSelectVal = enc_i,
                    bitRateSelectVal = bit_i, fpsSelectVal = fps_i, displayOut = dout \<rparr>;
             sent = ev @ [Post ''/video'' (Video_payload pl)]
         in case dev_post dev ''/video'' (Video_payload pl) of
              Inl e \<Rightarrow> (Inl e, s, sent)
            | Inr r \<Rightarrow>
                if status r
                then (case mirror pl s of (s', ev') \<Rightarrow> (Inr True, s', sent @ ev'))
                else (Inr False, s, sent)))))))"

subsection \<open>\_get\_supported\_params\<close>

text \<open>
  The assignments happen one after the other, so an index the device reports out of
  range raises IndexError with the earlier attributes already overwritten.
\<close>

definition supported_params_log :: "camera_client \<Rightarrow> event list" where
  "supported_params_log s =
     [Log INFO ''resolutions: %s'' (PStrs (resolutions s)),
      Log INFO ''encodetype: %s'' (PStrs (encodetype s)),
      Log INFO ''bitrates: %s'' (PStrs (bitrates s)),
      Log INFO ''framerates: %s'' (PInts (framerates s)),
      Log INFO ''Current preview settings:'' PNone,
      Log INFO ''resolution: %s'' (PStr (cur_resolution s)),
      Log INFO ''encodetype: %s'' (PStr (cur_codec s)),
      Log INFO ''bitrate: %s'' (PStr (cur_bitrate s)),
      Log INFO ''framerate: %s'' (PInt (cur_framerate s)),
      Log INFO ''display_out: %s'' (PInt (display_out s))]"

definition get_supported_params :: "device \<Rightarrow> camera_client \<Rightarrow> bool result" where
  "get_supported_params dev s =
     (case dev_get dev ''/video'' of
        Inl e \<Rightarrow> (Inl e, s, [Get ''/video''])
      | Inr r \<Rightarrow>
          if status r then
            (let s1 = s\<lparr>resolutions := resolution r\<rparr> in
             case getitem (resolutions s1) (resolutionSelectVal' r) of
               None \<Rightarrow> (Inl IndexError, s1, [Get ''/video''])
             | Some v1 \<Rightarrow>
            (let s2 = s1\<lparr>cur_resolution := v1, encodetype := encodeMode r\<rparr> in
             case getitem (encodetype s2) (encodeModeSelectVal' r) of
               None \<Rightarrow> (Inl IndexError, s2, [Get ''/video''])
             | Some v2 \<Rightarrow>
            (let s3 = s2\<lparr>cur_codec := v2, bitrates := bitRate r\<rparr> in
             case getitem (bitrates s3) (bitRateSelectVal' r) of
               None \<Rightarrow> (Inl IndexError, s3, [Get ''/video''])
             | Some v3 \<Rightarrow>
            (let s4 = s3\<lparr>cur_bitrate := v3, framerates := fps r\<rparr> in
             case getitem (framerates s4) (fpsSelectVal' r) of
               None \<Rightarrow> (Inl IndexError, s4, [Get ''/video''])
             | Some v4 \<Rightarrow>
            (let s5 = s4\<lparr>cur_framerate := v4, display_out := displayOut' r\<rparr>
             in (Inr True, s5, Get ''/video'' # supported_params_log s5))))))
          else (Inr False, s, [Get ''/video'']))"

subsection \<open>Stream URLs: \_get\_preview\_info and \_get\_vam\_info\<close>

text \<open>
  The rewriting both methods apply to a reported \<^verbatim>\<open>url\<close>:
  \<^verbatim>\<open>e_idx = url.rindex(":")\<close>, then, if \<^verbatim>\<open>DOCKER_IP_PREFIX not in ip_address\<close>,
  \<^verbatim>\<open>"rtsp://%s%s" % (ip_address, url[e_idx:])\<close>. \<open>None\<close> is the ValueError of
  \<^verbatim>\<open>rindex\<close>, raised before the address is looked at.
\<close>

definition resolve :: "string \<Rightarrow> string \<Rightarrow> string option" where
  "resolve raw ip =
     (case rindex raw CHR '':'' of
        None \<Rightarrow> None
      | Some e_idx \<Rightarrow>
          Some (if \<not> str_in DOCKER_IP_PREFIX ip then ''rtsp://'' @ ip @ drop e_idx raw
                else raw))"

definition pyval_of_url :: "string option \<Rightarrow> pyval" where
  "pyval_of_url u = (case u of None \<Rightarrow> PNone | Some v \<Rightarrow> PStr v)"

definition get_preview_info :: "device \<Rightarrow> camera_client \<Rightarrow> string option result" where
  "get_preview_info dev s =
     (case dev_get dev ''/preview'' of
        Inl e \<Rightarrow> (Inl e, s, [Get ''/preview''])
      | Inr r \<Rightarrow>
          (case (case url r of None \<Rightarrow> Some None
                 | Some raw \<Rightarrow> map_option Some (resolve raw (ip_address dev))) of
             None \<Rightarrow> (Inl ValueError, s, [Get ''/preview''])
           | Some u \<Rightarrow>
               (Inr u, s\<lparr>preview_url := u, preview_running := status r\<rparr>,
                [Get ''/preview'', Log INFO ''preview url: %s'' (pyval_of_url u)])))"

definition get_vam_info :: "device \<Rightarrow> camera_client \<Rightarrow> string option result" where
  "get_vam_info dev s =
     (case dev_get dev ''/vam'' of
        Inl e \<Rightarrow> (Inl e, s, [Get ''/vam''])
      | Inr r \<Rightarrow>
          (case (case url r of None \<Rightarrow> Some None
                 | Some raw \<Rightarrow> map_option Some (resolve raw (ip_address dev))) of
             None \<Rightarrow> (Inl ValueError, s, [Get ''/vam'', Log INFO ''RESPONSE: %s: '' (PDict r)])
           | Some u \<Rightarrow>
               (Inr u, s\<lparr>vam_url := u, vam_running := status r\<rparr>,
                [Get ''/vam'', Log INFO ''RESPONSE: %s: '' (PDict r),
                 Log INFO ''vam url: %s'' (pyval_of_url u)])))"

subsection \<open>The on/off switches\<close>

text \<open>
  The \<^verbatim>\<open>if state.lower() == "on": ... elif ... == "off": ... else: logger.error(...)\<close>
  block that opens the four switches. It binds the local \<^verbatim>\<open>status\<close> in its first two
  branches only: \<open>None\<close> is "\<^verbatim>\<open>status\<close> is unbound".
\<close>

definition switch_status :: "string \<Rightarrow> bool option \<times> event list" where
  "switch_status state =
     (if lower state = ''on'' then (Some True, [])
      else if lower state = ''off'' then (Some False, [])
      else (None, [Log ERROR ''Invalid state: %s should be on/off'' (PStr state)]))"

text \<open>
  Building the payload reads \<^verbatim>\<open>status\<close>; reading an unbound local raises
  UnboundLocalError, before \<^verbatim>\<open>ipc_provider.post\<close> is called.
\<close>

definition set_preview_state :: "device \<Rightarrow> camera_client \<Rightarrow> string \<Rightarrow> bool result" where
  "set_preview_state dev s state =
     (case switch_status state of
        (None, ev) \<Rightarrow> (Inl (UnboundLocalError ''status''), s, ev)
      | (Some b, ev) \<Rightarrow>
          (case dev_post dev ''/preview'' (Switch_payload b) of
             Inl e \<Rightarrow> (Inl e, s, ev @ [Post ''/preview'' (Switch_payload b)])
           | Inr r \<Rightarrow>
               (case get_preview_info dev s of
                  (Inl e, s', ev') \<Rightarrow>
                    (Inl e, s', ev @ [Post ''/preview'' (Switch_payload b)] @ ev')
                | (Inr u, s', ev') \<Rightarrow>
                    (Inr (status r), s', ev @ [Post ''/preview'' (Switch_payload b)] @ ev'))))"

definition set_analytics_state :: "device \<Rightarrow> camera_client \<Rightarrow> string \<Rightarrow> bool result" where
  "set_analytics_state dev s state =
     (case switch_status state of
        (None, ev) \<Rightarrow> (Inl (UnboundLocalError ''status''), s, ev)
      | (Some b, ev) \<Rightarrow>
          (case dev_post dev ''/vam'' (Vam_switch_payload b ''MD'') of
             Inl e \<Rightarrow> (Inl e, s, ev @ [Post ''/vam'' (Vam_switch_payload b ''MD'')])
           | Inr r \<Rightarrow>
               (case get_vam_info dev s of
                  (Inl e, s', ev') \<Rightarrow>
                    (Inl e, s', ev @ [Post ''/vam'' (Vam_switch_payload b ''MD'')] @ ev')
                | (Inr u, s', ev') \<Rightarrow>
                    (Inr (status r), s',
                     ev @ [Post ''/vam'' (Vam_switch_payload b ''MD'')] @ ev'))))"

definition set_recording_state :: "device \<Rightarrow> camera_client \<Rightarrow> string \<Rightarrow> bool result" where
  "set_recording_state dev s state =
     (case switch_status state of
        (None, ev) \<Rightarrow> (Inl (UnboundLocalError ''status''), s, ev)
      | (Some b, ev) \<Rightarrow>
          (case dev_post dev ''/recording'' (Switch_payload b) of
             Inl e \<Rightarrow> (Inl e, s, ev @ [Post ''/recording'' (Switch_payload b)])
           | Inr r \<Rightarrow>
               (let s' = s\<lparr>record_running := status r\<rparr>
                in (Inr (record_running s'), s',
                    ev @ [Post ''/recording'' (Switch_payload b)]))))"

text \<open>\<^verbatim>\<open>set_overlay_state(state=None)\<close>: the default argument has no \<^verbatim>\<open>lower\<close>.\<close>

definition set_overlay_state :: "device \<Rightarrow> camera_client \<Rightarrow> string option \<Rightarrow> bool result" where
  "set_overlay_state dev s state =
     (case state of
        None \<Rightarrow> (Inl AttributeError, s, [])
      | Some t \<Rightarrow>
          (case switch_status t of
             (None, ev) \<Rightarrow> (Inl (UnboundLocalError ''status''), s, ev)
           | (Some b, ev) \<Rightarrow>
               (case dev_post dev ''/overlay'' (Switch_payload b) of
                  Inl e \<Rightarrow> (Inl e, s, ev @ [Post ''/overlay'' (Switch_payload b)])
                | Inr r \<Rightarrow> (Inr (status r), s, ev @ [Post ''/overlay'' (Switch_payload b)]))))"

subsection \<open>captureimage\<close>

text \<open>The result \<open>None\<close> is Python's \<^verbatim>\<open>None\<close>; the error is logged as it is.\<close>

definition captureimage :: "device \<Rightarrow> camera_client \<Rightarrow> string option result" where
  "captureimage dev s =
     (case dev_post dev ''/captureimage'' Empty_payload of
        Inl e \<Rightarrow> (Inl e, s, [Post ''/captureimage'' Empty_payload])
      | Inr r \<Rightarrow>
          if Error r \<noteq> ''none''
          then (Inr None, s,
                [Post ''/captureimage'' Empty_payload, Log ERROR ''%s'' (PStr (Error r))])
          else (Inr (Some (Data r)), s, [Post ''/captureimage'' Empty_payload]))"

subsection \<open>The two scoped acquisitions\<close>

text \<open>
  What the caller does inside \<^verbatim>\<open>async with ...:\<close> is a parameter: a function from the
  client to the way the block is left, the client then, and the events of the block.
  Leaving by \<^verbatim>\<open>break\<close> or \<^verbatim>\<open>return\<close> resumes the generator after its \<^verbatim>\<open>yield\<close> as
  normal completion does; an exception is thrown into the generator at the \<^verbatim>\<open>yield\<close>.
\<close>

datatype body_exit = Completed | Early_exit | Raised exn

type_synonym scope_body = "camera_client \<Rightarrow> body_exit \<times> camera_client \<times> event list"

text \<open>\<^verbatim>\<open>except Exception as e: logger.exception(e); raise\<close>.\<close>

definition except_Exception :: "exn \<Rightarrow> event list" where
  "except_Exception e = (if is_Exception e then [Log_exception e] else [])"

text \<open>The \<^verbatim>\<open>if/elif\<close> chain on \<^verbatim>\<open>cur_resolution\<close>; \<open>None\<close> leaves both locals unbound.\<close>

definition preview_size :: "string \<Rightarrow> (int \<times> int) option" where
  "preview_size r =
     (if r = ''4K'' then Some (3840, 2160)
      else if r = ''1080P'' then Some (1920, 1080)
      else if r = ''720P'' then Some (1280, 720)
      else if r = ''480P'' then Some (640, 480)
      else None)"

text \<open>
  The \<^verbatim>\<open>try\<close> block of \<^verbatim>\<open>get_inferences\<close>. The value of
  \<^verbatim>\<open>self.vam_url.replace(NULL_IP, LOOPBACK_IP)\<close> is computed and dropped: the statement
  assigns nothing. \<^verbatim>\<open>NULL_IP in None\<close> raises TypeError.
\<close>

definition inferences_try :: "device \<Rightarrow> camera_client \<Rightarrow> scope_body \<Rightarrow> unit result" where
  "inferences_try dev s body =
     (case (if vam_url s = Some [] then get_vam_info dev s else (Inr None, s, [])) of
        (Inl e, s1, ev1) \<Rightarrow> (Inl e, s1, ev1)
      | (Inr u, s1, ev1) \<Rightarrow>
          (case vam_url s1 of
             None \<Rightarrow> (Inl TypeError, s1, ev1)
           | Some v \<Rightarrow>
               (case (if str_in NULL_IP v then replace v NULL_IP LOOPBACK_IP else []) of
                  dropped \<Rightarrow>
               (case dec_start dev v of
                  Some e \<Rightarrow> (Inl e, s1, ev1 @ [Start v])
                | None \<Rightarrow>
                    (case body s1 of
                       (Raised e, s2, ev2) \<Rightarrow> (Inl e, s2, ev1 @ [Start v] @ ev2)
                     | (Completed, s2, ev2) \<Rightarrow> (Inr (), s2, ev1 @ [Start v] @ ev2)
                     | (Early_exit, s2, ev2) \<Rightarrow> (Inr (), s2, ev1 @ [Start v] @ ev2))))))"

text \<open>
  The \<^verbatim>\<open>except\<close> and \<^verbatim>\<open>finally\<close> clauses around a \<^verbatim>\<open>try\<close> block's outcome.
  The release call of the \<^verbatim>\<open>finally\<close> clause is made on every path; \<open>raised\<close> is the
  exception it raises, if any, and that exception then takes the place of whatever was
  leaving the block, an exception in flight included.
\<close>

definition except_finally :: "unit result \<Rightarrow> event \<Rightarrow> exn option \<Rightarrow> unit result" where
  "except_finally r release raised =
     (case r of
        (Inl e, s, ev) \<Rightarrow>
          ((case raised of Some e' \<Rightarrow> Inl e' | None \<Rightarrow> Inl e), s,
           ev @ except_Exception e @ [release])
      | (Inr x, s, ev) \<Rightarrow>
          ((case raised of Some e' \<Rightarrow> Inl e' | None \<Rightarrow> Inr x), s, ev @ [release]))"

definition get_inferences :: "device \<Rightarrow> camera_client \<Rightarrow> scope_body \<Rightarrow> unit result" where
  "get_inferences dev s body =
     (if \<not> preview_running s then (Inl (EOFError ''preview not started''), s, [])
      else if \<not> vam_running s then (Inl (EOFError ''VAM not started''), s, [])
      else
        (case preview_size (cur_resolution s) of
           None \<Rightarrow> (Inl (UnboundLocalError ''preview_width''), s, [])
         | Some (w, h) \<Rightarrow>
             (case except_finally (inferences_try dev s body) Stop (dec_stop dev) of
                (r, s', ev) \<Rightarrow> (r, s', New_iterator w h # ev))))"

text \<open>
  \<^verbatim>\<open>connect\<close>: \<^verbatim>\<open>ipc_provider.connect()\<close> is awaited before the \<^verbatim>\<open>try\<close>; the block
  constructs the client, refreshes the capabilities and yields.
\<close>

definition connect_try :: "device \<Rightarrow> scope_body \<Rightarrow> unit result" where
  "connect_try dev body =
     (case get_supported_params dev init of
        (Inl e, s1, ev1) \<Rightarrow> (Inl e, s1, ev1)
      | (Inr ok, s1, ev1) \<Rightarrow>
          (case body s1 of
             (Raised e, s2, ev2) \<Rightarrow> (Inl e, s2, ev1 @ ev2)
           | (Completed, s2, ev2) \<Rightarrow> (Inr (), s2, ev1 @ ev2)
           | (Early_exit, s2, ev2) \<Rightarrow> (Inr (), s2, ev1 @ ev2)))"

definition connect :: "device \<Rightarrow> scope_body \<Rightarrow> (exn + unit) \<times> event list" where
  "connect dev body =
     (case dev_connect dev of
        Some e \<Rightarrow> (Inl e, [Connect])
      | None \<Rightarrow>
          (case except_finally (connect_try dev body) Logout
                  (case dev_logout dev of Inl e \<Rightarrow> Some e | Inr ok \<Rightarrow> None) of
             (r, s', ev) \<Rightarrow> (r, Connect # ev)))"

subsection \<open>logout\<close>

definition logout :: "device \<Rightarrow> camera_client \<Rightarrow> bool result" where
  "logout dev s =
     (case dev_logout dev of
        Inl e \<Rightarrow> (Inl e, s, [Logout])
      | Inr ok \<Rightarrow> (Inr ok, s, [Logout]))"

subsection \<open>Reading the trace\<close>

text \<open>The requests of a trace: the calls to \<^verbatim>\<open>ipc_provider.get\<close> and \<^verbatim>\<open>post\<close>.\<close>

definition requests :: "event list \<Rightarrow> event list" where
  "requests ev =
     filter (\<lambda>e. case e of Get p \<Rightarrow> True | Post p pl \<Rightarrow> True | _ \<Rightarrow> False) ev"

subsection \<open>Concrete devices and clients\<close>

text \<open>
  A response as a camera gives it, a device at a given address that answers every request
  with a given response, and a client as a completed capability refresh, a started
  preview and started analytics leave it.
\<close>

definition video_response :: response where
  "video_response =
     \<lparr> status = True, url = Some ''rtsp://10.0.0.5:8554/live'', Error = ''none'',
       Data = ''/9j/4AAQSkZJRg=='',
       resolution = [''4K'', ''1080P'', ''720P'', ''480P''], resolutionSelectVal' = 1,
       encodeMode = [''HEVC/H.265'', ''AVC/H.264''], encodeModeSelectVal' = 1,
       bitRate = [''512Kbps'', ''768Kbps'', ''1Mbps''], bitRateSelectVal' = 2,
       fps = [24, 30], fpsSelectVal' = 1, displayOut' = 0 \<rparr>"

definition answering :: "string \<Rightarrow> response \<Rightarrow> device" where
  "answering ip r =
     \<lparr> ip_address = ip, dev_connect = None, dev_get = (\<lambda>path. Inr r),
       dev_post = (\<lambda>path pl. Inr r), dev_logout = Inr True, dec_start = (\<lambda>u. None),
       dec_stop = None \<rparr>"

definition sample_client :: camera_client where
  "sample_client =
     \<lparr> preview_running = True, preview_url = Some ''rtsp://203.0.113.9:8554/live'',
       vam_running = True, vam_url = Some ''rtsp://203.0.113.9:8900/live'',
       record_running = False,
       resolutions = [''4K'', ''1080P'', ''720P'', ''480P''],
       encodetype = [''HEVC/H.265'', ''AVC/H.264''],
       bitrates = [''512Kbps'', ''768Kbps'', ''1Mbps''],
       framerates = [24, 30],
       cur_resolution = ''1080P'', cur_codec = ''AVC/H.264'', cur_bitrate = ''1Mbps'',
       cur_framerate = 30, display_out = 0 \<rparr>"

definition refusal :: response where
  "refusal = video_response\<lparr>status := False\<rparr>"

definition idle_body :: scope_body where
  "idle_body s = (Completed, s, [])"

definition busy :: response where
  "busy = video_response\<lparr>Error := ''camera busy'', Data := []\<rparr>"

definition interrupted_body :: scope_body where
  "interrupted_body s = (Raised KeyboardInterrupt, s, [])"

definition failing_body :: scope_body where
  "failing_body s = (Raised (Transport_error ''stream closed''), s, [])"

text \<open>
  A camera reached through the container bridge, reporting its streams at the null
  address, and the client after connecting to it and switching preview and analytics on.
\<close>

definition docker_response :: response where
  "docker_response = video_response\<lparr>url := Some ''rtsp://0.0.0.0:8900/live''\<rparr>"

definition docker_device :: device where
  "docker_device = answering ''172.17.0.2'' docker_response"

definition docker_session :: camera_client where
  "docker_session =
     fst (snd (set_analytics_state docker_device
       (fst (snd (set_preview_state docker_device
          (fst (snd (get_supported_params docker_device init))) ''on''))) ''on''))"

text \<open>A device whose session is lost by the time of the logout.\<close>

definition dropping :: device where
  "dropping =
     (answering ''203.0.113.9'' video_response)
       \<lparr>dev_logout := Inl (Transport_error ''connection lost'')\<rparr>"

section \<open>Auxiliary facts\<close>

lemma requests_append: "requests (a @ b) = requests a @ requests b"
  by (simp add: requests_def)

lemma requests_simps [simp]:
  "requests [] = []"
  "requests (Post p x # es) = Post p x # requests es"
  "requests (Get p # es) = Get p # requests es"
  "requests (Log lv fmt v # es) = requests es"
  "requests (Log_exception e # es) = requests es"
  by (simp_all add: requests_def)

lemma index_Some: "index xs x = Some i \<Longrightarrow> i < length xs \<and> xs ! i = x"
  by (induction xs arbitrary: i) (auto split: if_splits)

lemma index_None: "(index xs x = None) = (x \<notin> set xs)"
  by (induction xs) auto

lemma select_index_fallback:
  "\<forall>v. req = Some v \<longrightarrow> v \<notin> set caps \<Longrightarrow> select_index t req caps cur = index caps cur"
  by (simp add: select_index_def split: option.splits)

lemma select_index_range: "select_index t req caps cur = Some i \<Longrightarrow> i < length caps"
  by (auto simp: select_index_def split: option.splits if_splits dest: index_Some)

lemma select_index_current: "cur \<in> set caps \<Longrightarrow> \<exists>i. select_index t req caps cur = Some i"
  by (cases "select_index t req caps cur")
     (auto simp: select_index_def index_None split: option.splits if_splits)

lemma select_index_None:
  "cur \<notin> set caps \<Longrightarrow> \<forall>v. req = Some v \<longrightarrow> v \<notin> set caps \<Longrightarrow>
   select_index t req caps cur = None"
  by (simp add: select_index_fallback index_None)

lemma select_display_out_quiet [simp]:
  "requests (snd (select_display_out s dq)) = []"
  "Post p x \<notin> set (snd (select_display_out s dq))"
  by (auto simp: select_display_out_def requests_def split: option.splits)

text \<open>The five compare-assign steps amount to five assignments.\<close>

lemma mirror_fields:
  "fst (mirror pl s) =
     s\<lparr>cur_resolution := resolutions s ! resolutionSelectVal pl,
       cur_codec := encodetype s ! encodeModeSelectVal pl,
       cur_bitrate := bitrates s ! bitRateSelectVal pl,
       cur_framerate := framerates s ! fpsSelectVal pl,
       display_out := displayOut pl\<rparr>"
  by (simp add: mirror_def mirror_resolution_def mirror_codec_def mirror_bitrate_def
      mirror_framerate_def mirror_display_out_def Let_def)

lemma mirror_quiet [simp]:
  "requests (snd (mirror pl s)) = []"
  "Post p x \<notin> set (snd (mirror pl s))"
  by (simp_all add: mirror_def mirror_resolution_def mirror_codec_def mirror_bitrate_def
      mirror_framerate_def mirror_display_out_def Let_def requests_def)

text \<open>\<^verbatim>\<open>configure_preview\<close> either fails in one of its four lookups, or posts once.\<close>

lemma configure_preview_ValueError:
  assumes "select_index (\<lambda>v. v \<noteq> []) rq (resolutions s) (cur_resolution s) = None
         \<or> select_index (\<lambda>v. v \<noteq> []) eq (encodetype s) (cur_codec s) = None
         \<or> select_index (\<lambda>v. v \<noteq> []) bq (bitrates s) (cur_bitrate s) = None
         \<or> select_index (\<lambda>v. v \<noteq> 0) fq (framerates s) (cur_framerate s) = None"
  shows "configure_preview dev s rq eq bq fq dq = (Inl ValueError, s, [])"
  using assms by (auto simp: configure_preview_def split: option.splits)

lemma configure_preview_sent:
  assumes "select_index (\<lambda>v. v \<noteq> []) rq (resolutions s) (cur_resolution s) = Some a"
      and "select_index (\<lambda>v. v \<noteq> []) eq (encodetype s) (cur_codec s) = Some b"
      and "select_index (\<lambda>v. v \<noteq> []) bq (bitrates s) (cur_bitrate s) = Some c"
      and "select_index (\<lambda>v. v \<noteq> 0) fq (framerates s) (cur_framerate s) = Some d"
      and "pl = \<lparr> resolutionSelectVal = a, encodeModeSelectVal = b, bitRateSelectVal = c,
                  fpsSelectVal = d, displayOut = fst (select_display_out s dq) \<rparr>"
  shows "configure_preview dev s rq eq bq fq dq =
           (case dev_post dev ''/video'' (Video_payload pl) of
              Inl e \<Rightarrow>
                (Inl e, s, snd (select_display_out s dq) @ [Post ''/video'' (Video_payload pl)])
            | Inr r \<Rightarrow>
                if status r
                then (Inr True, fst (mirror pl s),
                      snd (select_display_out s dq) @ [Post ''/video'' (Video_payload pl)]
                        @ snd (mirror pl s))
                else (Inr False, s,
                      snd (select_display_out s dq) @ [Post ''/video'' (Video_payload pl)]))"
  using assms by (simp add: configure_preview_def Let_def split: prod.splits sum.splits)

lemma configure_preview_cases:
  obtains (raises)
    "configure_preview dev s rq eq bq fq dq = (Inl ValueError, s, [])"
    "select_index (\<lambda>v. v \<noteq> []) rq (resolutions s) (cur_resolution s) = None
       \<or> select_index (\<lambda>v. v \<noteq> []) eq (encodetype s) (cur_codec s) = None
       \<or> select_index (\<lambda>v. v \<noteq> []) bq (bitrates s) (cur_bitrate s) = None
       \<or> select_index (\<lambda>v. v \<noteq> 0) fq (framerates s) (cur_framerate s) = None"
  | (sends) pl where
    "select_index (\<lambda>v. v \<noteq> []) rq (resolutions s) (cur_resolution s)
       = Some (resolutionSelectVal pl)"
    "select_index (\<lambda>v. v \<noteq> []) eq (encodetype s) (cur_codec s)
       = Some (encodeModeSelectVal pl)"
    "select_index (\<lambda>v. v \<noteq> []) bq (bitrates s) (cur_bitrate s)
       = Some (bitRateSelectVal pl)"
    "select_index (\<lambda>v. v \<noteq> 0) fq (framerates s) (cur_framerate s)
       = Some (fpsSelectVal pl)"
    "displayOut pl = fst (select_display_out s dq)"
    "configure_preview dev s rq eq bq fq dq =
           (case dev_post dev ''/video'' (Video_payload pl) of
              Inl e \<Rightarrow>
                (Inl e, s, snd (select_display_out s dq) @ [Post ''/video'' (Video_payload pl)])
            | Inr r \<Rightarrow>
                if status r
                then (Inr True, fst (mirror pl s),
                      snd (select_display_out s dq) @ [Post ''/video'' (Video_payload pl)]
                        @ snd (mirror pl s))
                else (Inr False, s,
                      snd (select_display_out s dq) @ [Post ''/video'' (Video_payload pl)]))"
proof (cases "select_index (\<lambda>v. v \<noteq> []) rq (resolutions s) (cur_resolution s) = None
       \<or> select_index (\<lambda>v. v \<noteq> []) eq (encodetype s) (cur_codec s) = None
       \<or> select_index (\<lambda>v. v \<noteq> []) bq (bitrates s) (cur_bitrate s) = None
       \<or> select_index (\<lambda>v. v \<noteq> 0) fq (framerates s) (cur_framerate s) = None")
  case True
  then show ?thesis using raises configure_preview_ValueError by blast
next
  case False
  then obtain a b c d where sel:
    "select_index (\<lambda>v. v \<noteq> []) rq (resolutions s) (cur_resolution s) = Some a"
    "select_index (\<lambda>v. v \<noteq> []) eq (encodetype s) (cur_codec s) = Some b"
    "select_index (\<lambda>v. v \<noteq> []) bq (bitrates s) (cur_bitrate s) = Some c"
    "select_index (\<lambda>v. v \<noteq> 0) fq (framerates s) (cur_framerate s) = Some d"
    by auto
  define pl where "pl = \<lparr> resolutionSelectVal = a, encodeModeSelectVal = b,
    bitRateSelectVal = c, fpsSelectVal = d, displayOut = fst (select_display_out s dq) \<rparr>"
  show ?thesis
  proof (rule sends [of pl])
    show "configure_preview dev s rq eq bq fq dq =
           (case dev_post dev ''/video'' (Video_payload pl) of
              Inl e \<Rightarrow>
                (Inl e, s, snd (select_display_out s dq) @ [Post ''/video'' (Video_payload pl)])
            | Inr r \<Rightarrow>
                if status r
                then (Inr True, fst (mirror pl s),
                      snd (select_display_out s dq) @ [Post ''/video'' (Video_payload pl)]
                        @ snd (mirror pl s))
                else (Inr False, s,
                      snd (select_display_out s dq) @ [Post ''/video'' (Video_payload pl)]))"
      by (rule configure_preview_sent [OF sel pl_def])
  qed (simp_all add: pl_def sel)
qed

text \<open>The clauses around a \<^verbatim>\<open>try\<close> block, by the block's outcome.\<close>

lemma except_finally_Inl:
  "except_finally (Inl e, s, ev) release raised =
     ((case raised of Some e' \<Rightarrow> Inl e' | None \<Rightarrow> Inl e), s,
      ev @ (if is_Exception e then [Log_exception e] else []) @ [release])"
  by (simp add: except_finally_def except_Exception_def)

lemma except_finally_Inr:
  "except_finally (Inr x, s, ev) release raised =
     ((case raised of Some e' \<Rightarrow> Inl e' | None \<Rightarrow> Inr x), s, ev @ [release])"
  by (simp add: except_finally_def split: option.splits)

lemma except_finally_fst:
  "fst (except_finally r release None) = fst r"
  "fst (except_finally r release (Some e')) = Inl e'"
  by (cases r rule: prod_cases3; simp add: except_finally_def split: sum.splits)+

lemma except_finally_last: "last (snd (snd (except_finally r release raised))) = release"
  by (cases r rule: prod_cases3) (simp add: except_finally_def split: sum.splits)

lemma except_finally_nonempty: "snd (snd (except_finally r release raised)) \<noteq> []"
  by (cases r rule: prod_cases3) (simp add: except_finally_def split: sum.splits)

text \<open>The paths through the \<^verbatim>\<open>try\<close> block of \<^verbatim>\<open>connect\<close>.\<close>

lemma get_supported_params_transport:
  "dev_get dev ''/video'' = Inl e \<Longrightarrow> get_supported_params dev s = (Inl e, s, [Get ''/video''])"
  by (simp add: get_supported_params_def)

lemma connect_try_refresh_raises:
  "get_supported_params dev init = (Inl e, s1, ev1) \<Longrightarrow> connect_try dev body = (Inl e, s1, ev1)"
  by (simp add: connect_try_def)

lemma connect_try_body_raises:
  "get_supported_params dev init = (Inr ok, s1, ev1) \<Longrightarrow> body s1 = (Raised e, s2, ev2) \<Longrightarrow>
   connect_try dev body = (Inl e, s2, ev1 @ ev2)"
  by (simp add: connect_try_def)

lemma connect_try_body_returns:
  "get_supported_params dev init = (Inr ok, s1, ev1) \<Longrightarrow> body s1 = (x, s2, ev2) \<Longrightarrow>
   x = Completed \<or> x = Early_exit \<Longrightarrow> connect_try dev body = (Inr (), s2, ev1 @ ev2)"
  by (auto simp: connect_try_def)

text \<open>The paths through the \<^verbatim>\<open>try\<close> block of \<^verbatim>\<open>get_inferences\<close>.\<close>

lemma get_vam_info_transport:
  "dev_get dev ''/vam'' = Inl e \<Longrightarrow> get_vam_info dev s = (Inl e, s, [Get ''/vam''])"
  by (simp add: get_vam_info_def)

lemma inferences_try_refresh_raises:
  "(if vam_url s = Some [] then get_vam_info dev s else (Inr None, s, [])) = (Inl e, s1, ev1) \<Longrightarrow>
   inferences_try dev s body = (Inl e, s1, ev1)"
  by (simp add: inferences_try_def)

lemma inferences_try_no_url:
  "(if vam_url s = Some [] then get_vam_info dev s else (Inr None, s, [])) = (Inr u, s1, ev1) \<Longrightarrow>
   vam_url s1 = None \<Longrightarrow> inferences_try dev s body = (Inl TypeError, s1, ev1)"
  by (simp add: inferences_try_def)

lemma inferences_try_start_raises:
  "(if vam_url s = Some [] then get_vam_info dev s else (Inr None, s, [])) = (Inr u, s1, ev1) \<Longrightarrow>
   vam_url s1 = Some v \<Longrightarrow> dec_start dev v = Some e \<Longrightarrow>
   inferences_try dev s body = (Inl e, s1, ev1 @ [Start v])"
  by (simp add: inferences_try_def)

lemma inferences_try_block_raises:
  "(if vam_url s = Some [] then get_vam_info dev s else (Inr None, s, [])) = (Inr u, s1, ev1) \<Longrightarrow>
   vam_url s1 = Some v \<Longrightarrow> dec_start dev v = None \<Longrightarrow> body s1 = (Raised e, s2, ev2) \<Longrightarrow>
   inferences_try dev s body = (Inl e, s2, ev1 @ Start v # ev2)"
  by (simp add: inferences_try_def)

lemma inferences_try_block_returns:
  "(if vam_url s = Some [] then get_vam_info dev s else (Inr None, s, [])) = (Inr u, s1, ev1) \<Longrightarrow>
   vam_url s1 = Some v \<Longrightarrow> dec_start dev v = None \<Longrightarrow> body s1 = (x, s2, ev2) \<Longrightarrow>
   x = Completed \<or> x = Early_exit \<Longrightarrow>
   inferences_try dev s body = (Inr (), s2, ev1 @ Start v # ev2)"
  by (auto simp: inferences_try_def)

lemma inferences_try_body_raises:
  "vam_url s = Some v \<Longrightarrow> v \<noteq> [] \<Longrightarrow> dec_start dev v = None \<Longrightarrow>
   body s = (Raised e, s2, ev2) \<Longrightarrow> inferences_try dev s body = (Inl e, s2, Start v # ev2)"
  by (simp add: inferences_try_def)

lemma inferences_try_body_returns:
  "vam_url s = Some v \<Longrightarrow> v \<noteq> [] \<Longrightarrow> dec_start dev v = None \<Longrightarrow>
   body s = (x, s2, ev2) \<Longrightarrow> x = Completed \<or> x = Early_exit \<Longrightarrow>
   inferences_try dev s body = (Inr (), s2, Start v # ev2)"
  by (auto simp: inferences_try_def)

text \<open>The two scopes, by the outcome of their \<^verbatim>\<open>try\<close> block.\<close>

lemma connect_connected:
  "dev_connect dev = None \<Longrightarrow>
   connect dev body =
     (fst (except_finally (connect_try dev body) Logout
             (case dev_logout dev of Inl e \<Rightarrow> Some e | Inr ok \<Rightarrow> None)),
      Connect # snd (snd (except_finally (connect_try dev body) Logout
             (case dev_logout dev of Inl e \<Rightarrow> Some e | Inr ok \<Rightarrow> None))))"
  by (simp add: connect_def split: prod.splits)

lemma connect_raised:
  "dev_connect dev = None \<Longrightarrow> connect_try dev body = (Inl e, s1, ev1) \<Longrightarrow>
   connect dev body =
     ((case dev_logout dev of Inl e' \<Rightarrow> Inl e' | Inr ok \<Rightarrow> Inl e),
      Connect # ev1 @ (if is_Exception e then [Log_exception e] else []) @ [Logout])"
  by (simp add: connect_connected except_finally_Inl split: sum.splits)

lemma connect_returned:
  "dev_connect dev = None \<Longrightarrow> connect_try dev body = (Inr (), s1, ev1) \<Longrightarrow>
   connect dev body =
     ((case dev_logout dev of Inl e' \<Rightarrow> Inl e' | Inr ok \<Rightarrow> Inr ()),
      Connect # ev1 @ [Logout])"
  by (simp add: connect_connected except_finally_Inr split: sum.splits)

lemma get_inferences_started:
  "preview_running s \<Longrightarrow> vam_running s \<Longrightarrow> preview_size (cur_resolution s) = Some (w, h) \<Longrightarrow>
   get_inferences dev s body =
     (fst (except_finally (inferences_try dev s body) Stop (dec_stop dev)),
      fst (snd (except_finally (inferences_try dev s body) Stop (dec_stop dev))),
      New_iterator w h # snd (snd (except_finally (inferences_try dev s body) Stop
         (dec_stop dev))))"
  by (simp add: get_inferences_def split: prod.splits)

lemma get_inferences_raised:
  "preview_running s \<Longrightarrow> vam_running s \<Longrightarrow> preview_size (cur_resolution s) = Some (w, h) \<Longrightarrow>
   inferences_try dev s body = (Inl e, s1, ev1) \<Longrightarrow>
   get_inferences dev s body =
     ((case dec_stop dev of Some e' \<Rightarrow> Inl e' | None \<Rightarrow> Inl e), s1,
      New_iterator w h # ev1 @ (if is_Exception e then [Log_exception e] else []) @ [Stop])"
  by (simp add: get_inferences_started except_finally_Inl)

lemma get_inferences_returned:
  "preview_running s \<Longrightarrow> vam_running s \<Longrightarrow> preview_size (cur_resolution s) = Some (w, h) \<Longrightarrow>
   inferences_try dev s body = (Inr (), s1, ev1) \<Longrightarrow>
   get_inferences dev s body =
     ((case dec_stop dev of Some e' \<Rightarrow> Inl e' | None \<Rightarrow> Inr ()), s1,
      New_iterator w h # ev1 @ [Stop])"
  by (simp add: get_inferences_started except_finally_Inr)

text \<open>An unrecognised token leaves \<^verbatim>\<open>status\<close> unbound.\<close>

lemma switch_status_invalid:
  "lower t \<noteq> ''on'' \<Longrightarrow> lower t \<noteq> ''off'' \<Longrightarrow>
   switch_status t = (None, [Log ERROR ''Invalid state: %s should be on/off'' (PStr t)])"
  by (simp add: switch_status_def)

lemma switches_unbound_status:
  assumes "lower t \<noteq> ''on''" and "lower t \<noteq> ''off''"
  shows "set_preview_state dev s t
           = (Inl (UnboundLocalError ''status''), s,
              [Log ERROR ''Invalid state: %s should be on/off'' (PStr t)])"
    and "set_analytics_state dev s t
           = (Inl (UnboundLocalError ''status''), s,
              [Log ERROR ''Invalid state: %s should be on/off'' (PStr t)])"
    and "set_recording_state dev s t
           = (Inl (UnboundLocalError ''status''), s,
              [Log ERROR ''Invalid state: %s should be on/off'' (PStr t)])"
    and "set_overlay_state dev s (Some t)
           = (Inl (UnboundLocalError ''status''), s,
              [Log ERROR ''Invalid state: %s should be on/off'' (PStr t)])"
  using switch_status_invalid [OF assms]
  by (simp_all add: set_preview_state_def set_analytics_state_def set_recording_state_def
      set_overlay_state_def)

text \<open>The string primitives against the library's notions.\<close>

lemma str_in_sublist: "str_in a b = sublist a b"
  by (induction b) (auto simp: sublist_Cons_right)

lemma rindex_last:
  "rindex s c = Some i \<Longrightarrow> i < length s \<and> s ! i = c \<and> c \<notin> set (drop (Suc i) s)"
  "(rindex s c = None) = (c \<notin> set s)"
  by (induction s arbitrary: i) (auto split: option.splits if_splits)

text \<open>The rewriting tests the address for the substring, whatever its position.\<close>

lemma resolve_by_substring:
  "rindex raw CHR '':'' = Some i \<Longrightarrow>
   resolve raw ip = Some (if str_in DOCKER_IP_PREFIX ip then raw else ''rtsp://'' @ ip @ drop i raw)"
  by (simp add: resolve_def)

lemma resolve_examples:
  "resolve ''rtsp://10.0.0.5:8554/live'' ''203.0.113.9'' = Some ''rtsp://203.0.113.9:8554/live''"
  "resolve ''rtsp://10.0.0.5:8554/live'' ''172.17.0.2'' = Some ''rtsp://10.0.0.5:8554/live''"
  by (simp_all add: resolve_def DOCKER_IP_PREFIX_def)

text \<open>\<^verbatim>\<open>set_recording_state\<close> stores the status of the response, whatever the target.\<close>

lemma set_recording_state_flag:
  "switch_status t = (Some b, ev) \<Longrightarrow> dev_post dev ''/recording'' (Switch_payload b) = Inr r \<Longrightarrow>
   set_recording_state dev s t
     = (Inr (status r), s\<lparr>record_running := status r\<rparr>,
        ev @ [Post ''/recording'' (Switch_payload b)])"
  by (simp add: set_recording_state_def Let_def)

text \<open>The client of the bridged session, evaluated.\<close>

lemma docker_session_eq:
  "docker_session =
     \<lparr> preview_running = True, preview_url = Some ''rtsp://0.0.0.0:8900/live'',
       vam_running = True, vam_url = Some ''rtsp://0.0.0.0:8900/live'',
       record_running = False,
       resolutions = [''4K'', ''1080P'', ''720P'', ''480P''],
       encodetype = [''HEVC/H.265'', ''AVC/H.264''],
       bitrates = [''512Kbps'', ''768Kbps'', ''1Mbps''],
       framerates = [24, 30],
       cur_resolution = ''1080P'', cur_codec = ''AVC/H.264'', cur_bitrate = ''1Mbps'',
       cur_framerate = 30, display_out = 0 \<rparr>"
  by (simp add: docker_session_def docker_device_def docker_response_def answering_def
      video_response_def init_def get_supported_params_def getitem_def Let_def
      set_preview_state_def set_analytics_state_def switch_status_def lower_def lower_char_def
      get_preview_info_def get_vam_info_def resolve_def DOCKER_IP_PREFIX_def)

section \<open>Properties of the client\<close>

subsection \<open>configure\_preview\<close>



text \<open>
  Claim C3. For every call to \<^verbatim>\<open>configure_preview\<close>, the mirrored fields
  \<^verbatim>\<open>cur_resolution\<close>, \<^verbatim>\<open>cur_codec\<close>, \<^verbatim>\<open>cur_bitrate\<close>, \<^verbatim>\<open>cur_framerate\<close> and
  \<^verbatim>\<open>display_out\<close> (indeed the whole client) are unchanged whenever the call does not
  return true, in particular whenever the status of the response to the posted request is
  false. Whenever the status of that response is true, the call returns true, the fields
  are the capability lists' entries at the submitted indices and the submitted
  \<^verbatim>\<open>displayOut\<close>, and the one request of the call is the \<^verbatim>\<open>POST /video\<close>: there is no
  fresh refresh. The request is posted whenever the four current values are in their
  lists.
\<close>

theorem configure_preview_mirror_after_ack:
  assumes run: "configure_preview dev s rq eq bq fq dq = (res, s', ev)"
  shows "(res \<noteq> Inr True \<longrightarrow> s' = s)
       \<and> (\<forall>pl r. Post ''/video'' (Video_payload pl) \<in> set ev
                \<and> dev_post dev ''/video'' (Video_payload pl) = Inr r \<and> \<not> status r
              \<longrightarrow> res = Inr False \<and> s' = s)
       \<and> (res = Inr True \<longrightarrow>
            (\<exists>pl r. requests ev = [Post ''/video'' (Video_payload pl)]
                 \<and> dev_post dev ''/video'' (Video_payload pl) = Inr r \<and> status r
                 \<and> resolutionSelectVal pl < length (resolutions s)
                 \<and> encodeModeSelectVal pl < length (encodetype s)
                 \<and> bitRateSelectVal pl < length (bitrates s)
                 \<and> fpsSelectVal pl < length (framerates s)
                 \<and> s' = s\<lparr>cur_resolution := resolutions s ! resolutionSelectVal pl,
                          cur_codec := encodetype s ! encodeModeSelectVal pl,
                          cur_bitrate := bitrates s ! bitRateSelectVal pl,
                          cur_framerate := framerates s ! fpsSelectVal pl,
                          display_out := displayOut pl\<rparr>))
       \<and> (\<forall>pl r. Post ''/video'' (Video_payload pl) \<in> set ev
                \<and> dev_post dev ''/video'' (Video_payload pl) = Inr r \<and> status r
              \<longrightarrow> res = Inr True
                 \<and> requests ev = [Post ''/video'' (Video_payload pl)]
                 \<and> resolutionSelectVal pl < length (resolutions s)
                 \<and> encodeModeSelectVal pl < length (encodetype s)
                 \<and> bitRateSelectVal pl < length (bitrates s)
                 \<and> fpsSelectVal pl < length (framerates s)
                 \<and> s' = s\<lparr>cur_resolution := resolutions s ! resolutionSelectVal pl,
                          cur_codec := encodetype s ! encodeModeSelectVal pl,
                          cur_bitrate := bitrates s ! bitRateSelectVal pl,
                          cur_framerate := framerates s ! fpsSelectVal pl,
                          display_out := displayOut pl\<rparr>)
       \<and> (cur_resolution s \<in> set (resolutions s) \<and> cur_codec s \<in> set (encodetype s)
            \<and> cur_bitrate s \<in> set (bitrates s) \<and> cur_framerate s \<in> set (framerates s)
              \<longrightarrow> (\<exists>pl. Post ''/video'' (Video_payload pl) \<in> set ev))"
proof (cases rule: configure_preview_cases [of dev s rq eq bq fq dq])
  case raises
  have "\<not> (cur_resolution s \<in> set (resolutions s) \<and> cur_codec s \<in> set (encodetype s)
            \<and> cur_bitrate s \<in> set (bitrates s) \<and> cur_framerate s \<in> set (framerates s))"
  proof
    assume "cur_resolution s \<in> set (resolutions s) \<and> cur_codec s \<in> set (encodetype s)
            \<and> cur_bitrate s \<in> set (bitrates s) \<and> cur_framerate s \<in> set (framerates s)"
    then have
      "\<exists>i. select_index (\<lambda>v. v \<noteq> []) rq (resolutions s) (cur_resolution s) = Some i"
      "\<exists>i. select_index (\<lambda>v. v \<noteq> []) eq (encodetype s) (cur_codec s) = Some i"
      "\<exists>i. select_index (\<lambda>v. v \<noteq> []) bq (bitrates s) (cur_bitrate s) = Some i"
      "\<exists>i. select_index (\<lambda>v. v \<noteq> 0) fq (framerates s) (cur_framerate s) = Some i"
      by (simp_all add: select_index_current)
    with raises(2) show False by auto
  qed
  with raises(1) run show ?thesis by auto
next
  case (sends pl0)
  have same: "pl = pl0" if "Post ''/video'' (Video_payload pl) \<in> set ev" for pl
    using that run sends(6) by (auto split: sum.splits if_splits)
  have range: "resolutionSelectVal pl0 < length (resolutions s)"
    "encodeModeSelectVal pl0 < length (encodetype s)"
    "bitRateSelectVal pl0 < length (bitrates s)"
    "fpsSelectVal pl0 < length (framerates s)"
    using sends(1-4) by (auto dest: select_index_range)
  have posted: "Post ''/video'' (Video_payload pl0) \<in> set ev"
    using run sends(6) by (auto split: sum.splits if_splits)
  have a: "res \<noteq> Inr True \<longrightarrow> s' = s"
    using run sends(6) by (auto split: sum.splits if_splits)
  have b: "res = Inr False \<and> s' = s"
    if "Post ''/video'' (Video_payload pl) \<in> set ev"
       "dev_post dev ''/video'' (Video_payload pl) = Inr r" "\<not> status r" for pl r
    using that same [OF that(1)] run sends(6) by simp
  have acked: "res = Inr True \<and> requests ev = [Post ''/video'' (Video_payload pl0)]
       \<and> s' = s\<lparr>cur_resolution := resolutions s ! resolutionSelectVal pl0,
                          cur_codec := encodetype s ! encodeModeSelectVal pl0,
                          cur_bitrate := bitrates s ! bitRateSelectVal pl0,
                          cur_framerate := framerates s ! fpsSelectVal pl0,
                          display_out := displayOut pl0\<rparr>"
    if r: "dev_post dev ''/video'' (Video_payload pl0) = Inr r" "status r" for r
  proof -
    from r run sends(6) have res: "res = Inr True" and s': "s' = fst (mirror pl0 s)"
      and ev: "ev = snd (select_display_out s dq) @ [Post ''/video'' (Video_payload pl0)]
                  @ snd (mirror pl0 s)"
      by simp_all
    have "requests ev = [Post ''/video'' (Video_payload pl0)]"
      unfolding ev by (simp add: requests_append)
    moreover have "s' = s\<lparr>cur_resolution := resolutions s ! resolutionSelectVal pl0,
                          cur_codec := encodetype s ! encodeModeSelectVal pl0,
                          cur_bitrate := bitrates s ! bitRateSelectVal pl0,
                          cur_framerate := framerates s ! fpsSelectVal pl0,
                          display_out := displayOut pl0\<rparr>"
      unfolding s' by (rule mirror_fields)
    ultimately show ?thesis using res by (intro conjI)
  qed
  have c: "\<exists>pl r. requests ev = [Post ''/video'' (Video_payload pl)]
                 \<and> dev_post dev ''/video'' (Video_payload pl) = Inr r \<and> status r
                 \<and> resolutionSelectVal pl < length (resolutions s)
                 \<and> encodeModeSelectVal pl < length (encodetype s)
                 \<and> bitRateSelectVal pl < length (bitrates s)
                 \<and> fpsSelectVal pl < length (framerates s)
                 \<and> s' = s\<lparr>cur_resolution := resolutions s ! resolutionSelectVal pl,
                          cur_codec := encodetype s ! encodeModeSelectVal pl,
                          cur_bitrate := bitrates s ! bitRateSelectVal pl,
                          cur_framerate := framerates s ! fpsSelectVal pl,
                          display_out := displayOut pl\<rparr>" if "res = Inr True"
  proof -
    from that run sends(6) obtain r where
      r: "dev_post dev ''/video'' (Video_payload pl0) = Inr r" "status r"
      by (auto split: sum.splits if_splits)
    from acked [OF r] r range show ?thesis by blast
  qed
  have d: "res = Inr True
                 \<and> requests ev = [Post ''/video'' (Video_payload pl)]
                 \<and> resolutionSelectVal pl < length (resolutions s)
                 \<and> encodeModeSelectVal pl < length (encodetype s)
                 \<and> bitRateSelectVal pl < length (bitrates s)
                 \<and> fpsSelectVal pl < length (framerates s)
                 \<and> s' = s\<lparr>cur_resolution := resolutions s ! resolutionSelectVal pl,
                          cur_codec := encodetype s ! encodeModeSelectVal pl,
                          cur_bitrate := bitrates s ! bitRateSelectVal pl,
                          cur_framerate := framerates s ! fpsSelectVal pl,
                          display_out := displayOut pl\<rparr>"
    if "Post ''/video'' (Video_payload pl) \<in> set ev"
       "dev_post dev ''/video'' (Video_payload pl) = Inr r" "status r" for pl r
  proof -
    have eq: "pl = pl0" by (rule same [OF that(1)])
    from that(2,3) have "dev_post dev ''/video'' (Video_payload pl0) = Inr r" "status r"
      by (simp_all add: eq)
    from acked [OF this] range show ?thesis unfolding eq by (intro conjI) simp_all
  qed
  from posted have e: "\<exists>pl. Post ''/video'' (Video_payload pl) \<in> set ev" by blast
  from a b c d e show ?thesis by blast
qed


theorem configure_preview_mirror_after_ack_witness:
  "configure_preview (answering ''203.0.113.9'' refusal) sample_client
       (Some ''720P'') None None None (Some 1)
     = (Inr False, sample_client,
        [Post ''/video'' (Video_payload \<lparr> resolutionSelectVal = 2, encodeModeSelectVal = 1,
            bitRateSelectVal = 2, fpsSelectVal = 1, displayOut = 1 \<rparr>)])
   \<and> dev_post (answering ''203.0.113.9'' refusal) ''/video''
        (Video_payload \<lparr> resolutionSelectVal = 2, encodeModeSelectVal = 1,
            bitRateSelectVal = 2, fpsSelectVal = 1, displayOut = 1 \<rparr>) = Inr refusal
   \<and> \<not> status refusal
   \<and> configure_preview (answering ''203.0.113.9'' video_response) sample_client
       (Some ''720P'') None None None (Some 1)
     = (Inr True,
        sample_client\<lparr>cur_resolution := ''720P'', display_out := 1\<rparr>,
        [Post ''/video'' (Video_payload \<lparr> resolutionSelectVal = 2, encodeModeSelectVal = 1,
            bitRateSelectVal = 2, fpsSelectVal = 1, displayOut = 1 \<rparr>),
         Log INFO ''resolution now: %s'' (PStr ''720P''),
         Log INFO ''display_out now: %s'' (PInt 1)])
   \<and> dev_post (answering ''203.0.113.9'' video_response) ''/video''
        (Video_payload \<lparr> resolutionSelectVal = 2, encodeModeSelectVal = 1,
            bitRateSelectVal = 2, fpsSelectVal = 1, displayOut = 1 \<rparr>) = Inr video_response
   \<and> status video_response
   \<and> cur_resolution sample_client \<in> set (resolutions sample_client)
   \<and> cur_codec sample_client \<in> set (encodetype sample_client)
   \<and> cur_bitrate sample_client \<in> set (bitrates sample_client)
   \<and> cur_framerate sample_client \<in> set (framerates sample_client)"
proof -
  have run: "configure_preview (answering ''203.0.113.9'' refusal) sample_client
       (Some ''720P'') None None None (Some 1)
     = (Inr False, sample_client,
        [Post ''/video'' (Video_payload \<lparr> resolutionSelectVal = 2, encodeModeSelectVal = 1,
            bitRateSelectVal = 2, fpsSelectVal = 1, displayOut = 1 \<rparr>)])"
    by (simp add: configure_preview_def select_index_def select_display_out_def
        answering_def refusal_def video_response_def sample_client_def Let_def)
  have ack: "configure_preview (answering ''203.0.113.9'' video_response) sample_client
       (Some ''720P'') None None None (Some 1)
     = (Inr True,
        sample_client\<lparr>cur_resolution := ''720P'', display_out := 1\<rparr>,
        [Post ''/video'' (Video_payload \<lparr> resolutionSelectVal = 2, encodeModeSelectVal = 1,
            bitRateSelectVal = 2, fpsSelectVal = 1, displayOut = 1 \<rparr>),
         Log INFO ''resolution now: %s'' (PStr ''720P''),
         Log INFO ''display_out now: %s'' (PInt 1)])"
    by (simp add: configure_preview_def select_index_def select_display_out_def mirror_def
        mirror_resolution_def mirror_codec_def mirror_bitrate_def mirror_framerate_def
        mirror_display_out_def answering_def video_response_def sample_client_def Let_def)
  have post: "dev_post (answering ''203.0.113.9'' refusal) ''/video''
        (Video_payload \<lparr> resolutionSelectVal = 2, encodeModeSelectVal = 1,
            bitRateSelectVal = 2, fpsSelectVal = 1, displayOut = 1 \<rparr>) = Inr refusal"
    by (simp add: answering_def)
  have refused: "\<not> status refusal"
    by (simp add: refusal_def)
  have post': "dev_post (answering ''203.0.113.9'' video_response) ''/video''
        (Video_payload \<lparr> resolutionSelectVal = 2, encodeModeSelectVal = 1,
            bitRateSelectVal = 2, fpsSelectVal = 1, displayOut = 1 \<rparr>) = Inr video_response"
    by (simp add: answering_def)
  have accepted: "status video_response"
    by (simp add: video_response_def)
  have current: "cur_resolution sample_client \<in> set (resolutions sample_client)"
    "cur_codec sample_client \<in> set (encodetype sample_client)"
    "cur_bitrate sample_client \<in> set (bitrates sample_client)"
    "cur_framerate sample_client \<in> set (framerates sample_client)"
    by (simp_all add: sample_client_def)
  note refused_run = configure_preview_mirror_after_ack [OF run]
  note acked_run = configure_preview_mirror_after_ack [OF ack]
  from refused_run acked_run run ack post refused post' accepted current
  show ?thesis
    by (intro conjI)
qed


text \<open>
  Claim C10. For every call to \<^verbatim>\<open>configure_preview\<close> in a state where the capability list
  of some field does not contain the field's current value, that field not being requested
  with a member of the list, the call raises the ValueError of the list lookup before any
  request is sent, with the client unchanged, rather than returning false. The freshly
  constructed client, whose capability lists are empty, is such a state whatever is
  requested.
\<close>

theorem configure_preview_raises_ValueError:
  "((cur_resolution s \<notin> set (resolutions s) \<and> (\<forall>v. rq = Some v \<longrightarrow> v \<notin> set (resolutions s)))
    \<or> (cur_codec s \<notin> set (encodetype s) \<and> (\<forall>v. eq = Some v \<longrightarrow> v \<notin> set (encodetype s)))
    \<or> (cur_bitrate s \<notin> set (bitrates s) \<and> (\<forall>v. bq = Some v \<longrightarrow> v \<notin> set (bitrates s)))
    \<or> (cur_framerate s \<notin> set (framerates s) \<and> (\<forall>v. fq = Some v \<longrightarrow> v \<notin> set (framerates s)))
    \<longrightarrow> configure_preview dev s rq eq bq fq dq = (Inl ValueError, s, []))
 \<and> configure_preview dev init rq eq bq fq dq = (Inl ValueError, init, [])"
proof (intro conjI impI)
  assume "(cur_resolution s \<notin> set (resolutions s) \<and> (\<forall>v. rq = Some v \<longrightarrow> v \<notin> set (resolutions s)))
    \<or> (cur_codec s \<notin> set (encodetype s) \<and> (\<forall>v. eq = Some v \<longrightarrow> v \<notin> set (encodetype s)))
    \<or> (cur_bitrate s \<notin> set (bitrates s) \<and> (\<forall>v. bq = Some v \<longrightarrow> v \<notin> set (bitrates s)))
    \<or> (cur_framerate s \<notin> set (framerates s) \<and> (\<forall>v. fq = Some v \<longrightarrow> v \<notin> set (framerates s)))"
  then have "select_index (\<lambda>v. v \<noteq> []) rq (resolutions s) (cur_resolution s) = None
       \<or> select_index (\<lambda>v. v \<noteq> []) eq (encodetype s) (cur_codec s) = None
       \<or> select_index (\<lambda>v. v \<noteq> []) bq (bitrates s) (cur_bitrate s) = None
       \<or> select_index (\<lambda>v. v \<noteq> 0) fq (framerates s) (cur_framerate s) = None"
    by (elim disjE conjE) (simp_all add: select_index_None)
  then show "configure_preview dev s rq eq bq fq dq = (Inl ValueError, s, [])"
    by (rule configure_preview_ValueError)
next
  have "select_index (\<lambda>v. v \<noteq> []) rq (resolutions init) (cur_resolution init) = None"
    by (rule select_index_None) (simp_all add: init_def)
  then show "configure_preview dev init rq eq bq fq dq = (Inl ValueError, init, [])"
    by (simp add: configure_preview_ValueError)
qed

theorem configure_preview_raises_ValueError_witness:
  "cur_resolution init \<notin> set (resolutions init)
   \<and> ''720P'' \<notin> set (resolutions init)
   \<and> configure_preview (answering ''203.0.113.9'' video_response) init
        (Some ''720P'') None None None (Some 1) = (Inl ValueError, init, [])"
  using configure_preview_raises_ValueError
    [of init "Some ''720P''" None None None "answering ''203.0.113.9'' video_response" "Some 1"]
  by (simp add: init_def)

subsection \<open>get\_inferences\<close>

text \<open>
  Claim C5. For every client state, \<^verbatim>\<open>get_inferences\<close> raises the failure
  "preview not started" when \<^verbatim>\<open>preview_running\<close> is false, and the distinct failure
  "VAM not started" when \<^verbatim>\<open>preview_running\<close> is true and \<^verbatim>\<open>vam_running\<close> is false. In
  both cases nothing has happened before the failure: no device endpoint is contacted and
  no decoder is created. Whenever the call does anything at all, in particular whenever a
  stream is started, both flags are true.
\<close>

theorem get_inferences_preconditions:
  "(\<not> preview_running s \<longrightarrow>
      get_inferences dev s body = (Inl (EOFError ''preview not started''), s, []))
 \<and> (preview_running s \<and> \<not> vam_running s \<longrightarrow>
      get_inferences dev s body = (Inl (EOFError ''VAM not started''), s, []))
 \<and> EOFError ''preview not started'' \<noteq> EOFError ''VAM not started''
 \<and> (snd (snd (get_inferences dev s body)) \<noteq> [] \<longrightarrow> preview_running s \<and> vam_running s)
 \<and> ((\<exists>u. Start u \<in> set (snd (snd (get_inferences dev s body)))) \<longrightarrow>
       preview_running s \<and> vam_running s)"
  by (auto simp: get_inferences_def split: option.splits)

theorem get_inferences_preconditions_witness:
  "\<not> preview_running init
   \<and> get_inferences (answering ''203.0.113.9'' video_response) init idle_body
       = (Inl (EOFError ''preview not started''), init, [])
   \<and> preview_running (sample_client\<lparr>vam_running := False\<rparr>)
   \<and> \<not> vam_running (sample_client\<lparr>vam_running := False\<rparr>)
   \<and> get_inferences (answering ''203.0.113.9'' video_response)
         (sample_client\<lparr>vam_running := False\<rparr>) idle_body
       = (Inl (EOFError ''VAM not started''), sample_client\<lparr>vam_running := False\<rparr>, [])
   \<and> snd (snd (get_inferences (answering ''203.0.113.9'' video_response) sample_client
         idle_body))
       = [New_iterator 1920 1080, Start ''rtsp://203.0.113.9:8900/live'', Stop]
   \<and> preview_running sample_client \<and> vam_running sample_client"
proof -
  have started: "snd (snd (get_inferences (answering ''203.0.113.9'' video_response)
       sample_client idle_body))
       = [New_iterator 1920 1080, Start ''rtsp://203.0.113.9:8900/live'', Stop]"
    by (simp add: get_inferences_def inferences_try_def except_finally_def preview_size_def
        answering_def sample_client_def idle_body_def NULL_IP_def)
  show ?thesis
    using get_inferences_preconditions
            [of init "answering ''203.0.113.9'' video_response" idle_body]
          get_inferences_preconditions
            [of "sample_client\<lparr>vam_running := False\<rparr>"
                "answering ''203.0.113.9'' video_response" idle_body]
          get_inferences_preconditions
            [of sample_client "answering ''203.0.113.9'' video_response" idle_body]
          started
    by (simp add: init_def sample_client_def)
qed

text \<open>
  Claim C1 says that a resolved vam URL containing the null address "0.0.0.0" reaches
  \<^verbatim>\<open>inference_iterator.start\<close> with every occurrence replaced by "127.0.0.1". The code
  computes the replaced string and drops it, strings being immutable: at the client of a
  session with a camera behind the container bridge, whose vam URL is
  "rtsp://0.0.0.0:8900/live", the decoder is started on that very URL, and not on
  "rtsp://127.0.0.1:8900/live".
\<close>

theorem get_inferences_keeps_null_address:
  "vam_url docker_session = Some ''rtsp://0.0.0.0:8900/live''
   \<and> str_in NULL_IP ''rtsp://0.0.0.0:8900/live''
   \<and> get_inferences docker_device docker_session idle_body
       = (Inr (), docker_session,
          [New_iterator 1920 1080, Start ''rtsp://0.0.0.0:8900/live'', Stop])
   \<and> replace ''rtsp://0.0.0.0:8900/live'' NULL_IP LOOPBACK_IP = ''rtsp://127.0.0.1:8900/live''"
proof -
  have a: "vam_url docker_session = Some ''rtsp://0.0.0.0:8900/live''"
    by (simp add: docker_session_eq)
  have b: "str_in NULL_IP ''rtsp://0.0.0.0:8900/live''"
    by (simp add: NULL_IP_def)
  have c: "get_inferences docker_device docker_session idle_body
       = (Inr (), docker_session,
          [New_iterator 1920 1080, Start ''rtsp://0.0.0.0:8900/live'', Stop])"
    unfolding docker_session_eq
    by (simp add: get_inferences_def inferences_try_def except_finally_def preview_size_def
        docker_device_def answering_def idle_body_def)
  have d: "replace ''rtsp://0.0.0.0:8900/live'' NULL_IP LOOPBACK_IP
             = ''rtsp://127.0.0.1:8900/live''"
    by (simp add: replace.simps NULL_IP_def LOOPBACK_IP_def)
  from a b c d show ?thesis by (intro conjI)
qed

subsection \<open>The on/off switches\<close>

text \<open>
  Claim C6 says that a token other than "on" or "off" (in any case) is logged as an error
  and that the switch request is sent all the same, with some boolean target: the
  operation does not stop before it posts. The code logs the error and then reads the
  local \<^verbatim>\<open>status\<close> that neither branch bound: for the token "maybe", each of
  \<^verbatim>\<open>set_preview_state\<close>, \<^verbatim>\<open>set_analytics_state\<close>, \<^verbatim>\<open>set_recording_state\<close> and
  \<^verbatim>\<open>set_overlay_state\<close> raises UnboundLocalError when it builds the payload, no request
  is in the trace, and the boolean the docstrings promise is not returned.
\<close>

theorem switches_abort_on_invalid_token:
  "set_preview_state (answering ''203.0.113.9'' video_response) sample_client ''maybe''
     = (Inl (UnboundLocalError ''status''), sample_client,
        [Log ERROR ''Invalid state: %s should be on/off'' (PStr ''maybe'')])
   \<and> set_analytics_state (answering ''203.0.113.9'' video_response) sample_client ''maybe''
     = (Inl (UnboundLocalError ''status''), sample_client,
        [Log ERROR ''Invalid state: %s should be on/off'' (PStr ''maybe'')])
   \<and> set_recording_state (answering ''203.0.113.9'' video_response) sample_client ''maybe''
     = (Inl (UnboundLocalError ''status''), sample_client,
        [Log ERROR ''Invalid state: %s should be on/off'' (PStr ''maybe'')])
   \<and> set_overlay_state (answering ''203.0.113.9'' video_response) sample_client
        (Some ''maybe'')
     = (Inl (UnboundLocalError ''status''), sample_client,
        [Log ERROR ''Invalid state: %s should be on/off'' (PStr ''maybe'')])
   \<and> requests [Log ERROR ''Invalid state: %s should be on/off'' (PStr ''maybe'')] = []"
proof -
  have a: "lower ''maybe'' \<noteq> ''on''" and b: "lower ''maybe'' \<noteq> ''off''"
    by (simp_all add: lower_def lower_char_def)
  show ?thesis
    by (simp add: switches_unbound_status [OF a b])
qed

text \<open>
  Claim C7 says that \<^verbatim>\<open>set_recording_state\<close> sets \<^verbatim>\<open>record_running\<close> to true only
  after a successful request with target "on", and that a failed request leaves the flag
  as it was. The code stores the status of the response: a successful "off" sets the flag
  to true, and a refused "on" clears a flag that was true.
\<close>

theorem record_running_is_request_status:
  "set_recording_state (answering ''203.0.113.9'' video_response) sample_client ''off''
     = (Inr True, sample_client\<lparr>record_running := True\<rparr>,
        [Post ''/recording'' (Switch_payload False)])
   \<and> \<not> record_running sample_client
   \<and> set_recording_state (answering ''203.0.113.9'' refusal)
        (sample_client\<lparr>record_running := True\<rparr>) ''on''
     = (Inr False, sample_client\<lparr>record_running := False\<rparr>,
        [Post ''/recording'' (Switch_payload True)])"
  by (simp add: set_recording_state_def switch_status_def lower_def lower_char_def
      answering_def video_response_def refusal_def sample_client_def Let_def)

subsection \<open>Stream URLs\<close>

text \<open>
  Claim C4 says that the stored URL is the device's own when the device address lies in
  the bridge network's prefix range 172.17, and is "rtsp://", the device address and the
  reported URL's suffix from its last colon otherwise. The code tests whether "172.17"
  occurs anywhere in the address: for the device address 192.168.172.17, which does not
  begin with the prefix, the reported URL "rtsp://10.0.0.5:8554/live" is stored as it is,
  not as "rtsp://192.168.172.17:8554/live".
\<close>

theorem url_kept_for_address_containing_prefix:
  "\<not> prefix DOCKER_IP_PREFIX ''192.168.172.17''
   \<and> get_preview_info (answering ''192.168.172.17'' video_response) init
       = (Inr (Some ''rtsp://10.0.0.5:8554/live''),
          init\<lparr>preview_url := Some ''rtsp://10.0.0.5:8554/live'', preview_running := True\<rparr>,
          [Get ''/preview'', Log INFO ''preview url: %s'' (PStr ''rtsp://10.0.0.5:8554/live'')])
   \<and> vam_url (fst (snd (get_vam_info (answering ''192.168.172.17'' video_response) init)))
       = Some ''rtsp://10.0.0.5:8554/live''"
  by (simp add: get_preview_info_def get_vam_info_def resolve_def DOCKER_IP_PREFIX_def
      answering_def video_response_def pyval_of_url_def)

subsection \<open>captureimage\<close>

text \<open>
  Claim C8. For every call to \<^verbatim>\<open>captureimage\<close> that the device answers: if the response's
  \<^verbatim>\<open>Error\<close> field differs from "none", the call logs the error and returns \<^verbatim>\<open>None\<close>; if
  the field equals "none", the call returns the response's \<^verbatim>\<open>Data\<close> field. In neither
  case does the call raise: the device's failure is signalled through the returned value
  only.
\<close>

theorem captureimage_result:
  assumes "dev_post dev ''/captureimage'' Empty_payload = Inr r"
  shows "(Error r \<noteq> ''none'' \<longrightarrow>
            captureimage dev s =
              (Inr None, s,
               [Post ''/captureimage'' Empty_payload, Log ERROR ''%s'' (PStr (Error r))]))
       \<and> (Error r = ''none'' \<longrightarrow>
            captureimage dev s =
              (Inr (Some (Data r)), s, [Post ''/captureimage'' Empty_payload]))
       \<and> (\<forall>e. fst (captureimage dev s) \<noteq> Inl e)"
  using assms by (simp add: captureimage_def)

theorem captureimage_result_witness:
  "dev_post (answering ''203.0.113.9'' busy) ''/captureimage'' Empty_payload = Inr busy
   \<and> Error busy \<noteq> ''none''
   \<and> captureimage (answering ''203.0.113.9'' busy) sample_client
       = (Inr None, sample_client,
          [Post ''/captureimage'' Empty_payload, Log ERROR ''%s'' (PStr ''camera busy'')])
   \<and> dev_post (answering ''203.0.113.9'' video_response) ''/captureimage'' Empty_payload
       = Inr video_response
   \<and> Error video_response = ''none''
   \<and> captureimage (answering ''203.0.113.9'' video_response) sample_client
       = (Inr (Some ''/9j/4AAQSkZJRg==''), sample_client,
          [Post ''/captureimage'' Empty_payload])"
proof -
  have a: "dev_post (answering ''203.0.113.9'' busy) ''/captureimage'' Empty_payload
             = Inr busy"
    by (simp add: answering_def)
  have b: "dev_post (answering ''203.0.113.9'' video_response) ''/captureimage''
             Empty_payload = Inr video_response"
    by (simp add: answering_def)
  show ?thesis
    using captureimage_result [OF a, of sample_client]
          captureimage_result [OF b, of sample_client] a b
    by (simp add: busy_def video_response_def)
qed

subsection \<open>The scoped acquisitions\<close>

text \<open>
  Claim C9 says that on every exit path of either scope the release is called and that any
  exception raised inside the scope is logged and re-raised unchanged. The handlers are
  \<^verbatim>\<open>except Exception\<close>: a KeyboardInterrupt raised in the block under
  \<^verbatim>\<open>get_inferences\<close> stops the decoder and propagates unchanged, but is not logged. And
  the release is itself a call that may raise: when the block under \<^verbatim>\<open>connect\<close> fails
  with "stream closed" and \<^verbatim>\<open>logout()\<close> then fails with "connection lost", the caller
  receives "connection lost".
\<close>

theorem scope_exception_counterexample:
  "get_inferences (answering ''203.0.113.9'' video_response) sample_client interrupted_body
     = (Inl KeyboardInterrupt, sample_client,
        [New_iterator 1920 1080, Start ''rtsp://203.0.113.9:8900/live'', Stop])
   \<and> fst (connect_try dropping failing_body) = Inl (Transport_error ''stream closed'')
   \<and> fst (connect dropping failing_body) = Inl (Transport_error ''connection lost'')"
proof -
  have a: "get_inferences (answering ''203.0.113.9'' video_response) sample_client
       interrupted_body
     = (Inl KeyboardInterrupt, sample_client,
        [New_iterator 1920 1080, Start ''rtsp://203.0.113.9:8900/live'', Stop])"
    by (simp add: get_inferences_def inferences_try_def except_finally_def
        except_Exception_def preview_size_def answering_def sample_client_def
        interrupted_body_def)
  have refreshed: "fst (get_supported_params dropping init) = Inr True"
    by (simp add: get_supported_params_def dropping_def answering_def video_response_def
        getitem_def Let_def)
  have b: "fst (connect_try dropping failing_body) = Inl (Transport_error ''stream closed'')"
    using refreshed
    by (cases "get_supported_params dropping init" rule: prod_cases3)
       (simp add: connect_try_def failing_body_def)
  have c: "fst (connect dropping failing_body) = Inl (Transport_error ''connection lost'')"
    by (simp add: connect_connected except_finally_fst dropping_def answering_def)
  from a b c show ?thesis by (intro conjI)
qed

text \<open>
  Claim C9, amended. Once \<^verbatim>\<open>ipc_provider.connect()\<close> has returned, every exit path of
  the \<^verbatim>\<open>connect\<close> scope (normal completion, early exit, an exception of the transport,
  of the refresh or of the block) ends with the call of \<^verbatim>\<open>ipc_provider.logout()\<close>; once
  the decoder object exists, every exit path of the \<^verbatim>\<open>get_inferences\<close> scope (normal
  completion, early exit, an exception of the transport, of the refresh, of
  \<^verbatim>\<open>start\<close> or of the block, or the missing URL) ends with the call of
  \<^verbatim>\<open>inference_iterator.stop()\<close>. An exception raised inside either scope is logged
  before the release exactly when it is an instance of \<^verbatim>\<open>Exception\<close>, and is never
  swallowed: if the release returns, the same exception propagates, and a normal exit
  stays normal; if the release raises, its exception propagates instead.
\<close>

theorem scopes_release:
  "(dev_connect dev = None \<longrightarrow>
      last (snd (connect dev body)) = Logout
    \<and> (\<forall>ok. dev_logout dev = Inr ok \<longrightarrow> fst (connect dev body) = fst (connect_try dev body))
    \<and> (\<forall>e'. dev_logout dev = Inl e' \<longrightarrow> fst (connect dev body) = Inl e')
    \<and> (\<forall>e. dev_get dev ''/video'' = Inl e \<longrightarrow>
          connect dev body =
            ((case dev_logout dev of Inl e' \<Rightarrow> Inl e' | Inr ok \<Rightarrow> Inl e),
             Connect # [Get ''/video'']
               @ (if is_Exception e then [Log_exception e] else []) @ [Logout]))
    \<and> (\<forall>e s1 ev1. get_supported_params dev init = (Inl e, s1, ev1) \<longrightarrow>
          connect dev body =
            ((case dev_logout dev of Inl e' \<Rightarrow> Inl e' | Inr ok \<Rightarrow> Inl e),
             Connect # ev1 @ (if is_Exception e then [Log_exception e] else []) @ [Logout]))
    \<and> (\<forall>ok s1 ev1 e s2 ev2.
          get_supported_params dev init = (Inr ok, s1, ev1) \<and> body s1 = (Raised e, s2, ev2) \<longrightarrow>
          connect dev body =
            ((case dev_logout dev of Inl e' \<Rightarrow> Inl e' | Inr ok \<Rightarrow> Inl e),
             Connect # (ev1 @ ev2) @ (if is_Exception e then [Log_exception e] else [])
               @ [Logout]))
    \<and> (\<forall>ok s1 ev1 x s2 ev2.
          get_supported_params dev init = (Inr ok, s1, ev1) \<and> body s1 = (x, s2, ev2)
            \<and> (x = Completed \<or> x = Early_exit) \<longrightarrow>
          connect dev body =
            ((case dev_logout dev of Inl e' \<Rightarrow> Inl e' | Inr ok \<Rightarrow> Inr ()),
             Connect # (ev1 @ ev2) @ [Logout])))
 \<and> (preview_running s \<and> vam_running s \<and> preview_size (cur_resolution s) = Some (w, h) \<longrightarrow>
      last (snd (snd (get_inferences dev s body))) = Stop
    \<and> (dec_stop dev = None \<longrightarrow>
          fst (get_inferences dev s body) = fst (inferences_try dev s body))
    \<and> (\<forall>e'. dec_stop dev = Some e' \<longrightarrow> fst (get_inferences dev s body) = Inl e')
    \<and> (\<forall>e. vam_url s = Some [] \<and> dev_get dev ''/vam'' = Inl e \<longrightarrow>
          get_inferences dev s body =
            ((case dec_stop dev of Some e' \<Rightarrow> Inl e' | None \<Rightarrow> Inl e), s,
             New_iterator w h # [Get ''/vam'']
               @ (if is_Exception e then [Log_exception e] else []) @ [Stop]))
    \<and> (\<forall>e s1 ev1.
          (if vam_url s = Some [] then get_vam_info dev s else (Inr None, s, []))
            = (Inl e, s1, ev1) \<longrightarrow>
          get_inferences dev s body =
            ((case dec_stop dev of Some e' \<Rightarrow> Inl e' | None \<Rightarrow> Inl e), s1,
             New_iterator w h # ev1 @ (if is_Exception e then [Log_exception e] else [])
               @ [Stop]))
    \<and> (\<forall>u s1 ev1.
          (if vam_url s = Some [] then get_vam_info dev s else (Inr None, s, []))
            = (Inr u, s1, ev1) \<and> vam_url s1 = None \<longrightarrow>
          get_inferences dev s body =
            ((case dec_stop dev of Some e' \<Rightarrow> Inl e' | None \<Rightarrow> Inl TypeError), s1,
             New_iterator w h # ev1 @ [Log_exception TypeError] @ [Stop]))
    \<and> (\<forall>u s1 ev1 v e.
          (if vam_url s = Some [] then get_vam_info dev s else (Inr None, s, []))
            = (Inr u, s1, ev1) \<and> vam_url s1 = Some v \<and> dec_start dev v = Some e \<longrightarrow>
          get_inferences dev s body =
            ((case dec_stop dev of Some e' \<Rightarrow> Inl e' | None \<Rightarrow> Inl e), s1,
             New_iterator w h # (ev1 @ [Start v])
               @ (if is_Exception e then [Log_exception e] else []) @ [Stop]))
    \<and> (\<forall>u s1 ev1 v e s2 ev2.
          (if vam_url s = Some [] then get_vam_info dev s else (Inr None, s, []))
            = (Inr u, s1, ev1) \<and> vam_url s1 = Some v \<and> dec_start dev v = None
            \<and> body s1 = (Raised e, s2, ev2) \<longrightarrow>
          get_inferences dev s body =
            ((case dec_stop dev of Some e' \<Rightarrow> Inl e' | None \<Rightarrow> Inl e), s2,
             New_iterator w h # (ev1 @ Start v # ev2)
               @ (if is_Exception e then [Log_exception e] else []) @ [Stop]))
    \<and> (\<forall>u s1 ev1 v x s2 ev2.
          (if vam_url s = Some [] then get_vam_info dev s else (Inr None, s, []))
            = (Inr u, s1, ev1) \<and> vam_url s1 = Some v \<and> dec_start dev v = None
            \<and> body s1 = (x, s2, ev2) \<and> (x = Completed \<or> x = Early_exit) \<longrightarrow>
          get_inferences dev s body =
            ((case dec_stop dev of Some e' \<Rightarrow> Inl e' | None \<Rightarrow> Inr ()), s2,
             New_iterator w h # (ev1 @ Start v # ev2) @ [Stop])))"
proof (intro conjI impI allI; (elim conjE)?)
  assume c: "dev_connect dev = None"
  note cc = connect_connected [OF c, of body]
  show "last (snd (connect dev body)) = Logout"
    by (simp add: cc except_finally_last except_finally_nonempty)
  show "fst (connect dev body) = fst (connect_try dev body)" if "dev_logout dev = Inr ok" for ok
    using that by (simp add: cc except_finally_fst)
  show "fst (connect dev body) = Inl e'" if "dev_logout dev = Inl e'" for e'
    using that by (simp add: cc except_finally_fst)
  show "connect dev body =
            ((case dev_logout dev of Inl e' \<Rightarrow> Inl e' | Inr ok \<Rightarrow> Inl e),
             Connect # [Get ''/video'']
               @ (if is_Exception e then [Log_exception e] else []) @ [Logout])"
    if "dev_get dev ''/video'' = Inl e" for e
  proof -
    from that have "connect_try dev body = (Inl e, init, [Get ''/video''])"
      by (intro connect_try_refresh_raises get_supported_params_transport)
    from connect_raised [OF c this] show ?thesis .
  qed
  show "connect dev body =
            ((case dev_logout dev of Inl e' \<Rightarrow> Inl e' | Inr ok \<Rightarrow> Inl e),
             Connect # ev1 @ (if is_Exception e then [Log_exception e] else []) @ [Logout])"
    if "get_supported_params dev init = (Inl e, s1, ev1)" for e s1 ev1
  proof -
    from that have "connect_try dev body = (Inl e, s1, ev1)"
      by (rule connect_try_refresh_raises)
    from connect_raised [OF c this] show ?thesis .
  qed
  show "connect dev body =
            ((case dev_logout dev of Inl e' \<Rightarrow> Inl e' | Inr ok \<Rightarrow> Inl e),
             Connect # (ev1 @ ev2) @ (if is_Exception e then [Log_exception e] else [])
               @ [Logout])"
    if "get_supported_params dev init = (Inr ok, s1, ev1)" "body s1 = (Raised e, s2, ev2)"
    for ok s1 ev1 e s2 ev2
    by (rule connect_raised [OF c connect_try_body_raises [where body = body, OF that]])
  show "connect dev body =
            ((case dev_logout dev of Inl e' \<Rightarrow> Inl e' | Inr ok \<Rightarrow> Inr ()),
             Connect # (ev1 @ ev2) @ [Logout])"
    if "get_supported_params dev init = (Inr ok, s1, ev1)" "body s1 = (x, s2, ev2)"
       "x = Completed \<or> x = Early_exit"
    for ok s1 ev1 x s2 ev2
    by (rule connect_returned [OF c connect_try_body_returns [where body = body, OF that]])
next
  assume run: "preview_running s" "vam_running s"
    "preview_size (cur_resolution s) = Some (w, h)"
  note gi = get_inferences_started [OF run, of dev body]
  note raised = get_inferences_raised [OF run]
  note returned = get_inferences_returned [OF run]
  show "last (snd (snd (get_inferences dev s body))) = Stop"
    by (simp add: gi except_finally_last except_finally_nonempty)
  show "fst (get_inferences dev s body) = fst (inferences_try dev s body)"
    if "dec_stop dev = None"
    using that by (simp add: gi except_finally_fst)
  show "fst (get_inferences dev s body) = Inl e'" if "dec_stop dev = Some e'" for e'
    using that by (simp add: gi except_finally_fst)
  show "get_inferences dev s body =
            ((case dec_stop dev of Some e' \<Rightarrow> Inl e' | None \<Rightarrow> Inl e), s,
             New_iterator w h # [Get ''/vam'']
               @ (if is_Exception e then [Log_exception e] else []) @ [Stop])"
    if t: "vam_url s = Some []" "dev_get dev ''/vam'' = Inl e" for e
  proof -
    from t have "inferences_try dev s body = (Inl e, s, [Get ''/vam''])"
      by (intro inferences_try_refresh_raises) (simp add: get_vam_info_transport)
    from raised [OF this] show ?thesis .
  qed
  show "get_inferences dev s body =
            ((case dec_stop dev of Some e' \<Rightarrow> Inl e' | None \<Rightarrow> Inl e), s1,
             New_iterator w h # ev1 @ (if is_Exception e then [Log_exception e] else [])
               @ [Stop])"
    if "(if vam_url s = Some [] then get_vam_info dev s else (Inr None, s, []))
            = (Inl e, s1, ev1)" for e s1 ev1
    by (rule raised [OF inferences_try_refresh_raises [OF that]])
  show "get_inferences dev s body =
            ((case dec_stop dev of Some e' \<Rightarrow> Inl e' | None \<Rightarrow> Inl TypeError), s1,
             New_iterator w h # ev1 @ [Log_exception TypeError] @ [Stop])"
    if t: "(if vam_url s = Some [] then get_vam_info dev s else (Inr None, s, []))
            = (Inr u, s1, ev1)" "vam_url s1 = None" for u s1 ev1
    using raised [OF inferences_try_no_url [OF t]] by simp
  show "get_inferences dev s body =
            ((case dec_stop dev of Some e' \<Rightarrow> Inl e' | None \<Rightarrow> Inl e), s1,
             New_iterator w h # (ev1 @ [Start v])
               @ (if is_Exception e then [Log_exception e] else []) @ [Stop])"
    if t: "(if vam_url s = Some [] then get_vam_info dev s else (Inr None, s, []))
            = (Inr u, s1, ev1)" "vam_url s1 = Some v" "dec_start dev v = Some e"
    for u s1 ev1 v e
    by (rule raised [OF inferences_try_start_raises [OF t]])
  show "get_inferences dev s body =
            ((case dec_stop dev of Some e' \<Rightarrow> Inl e' | None \<Rightarrow> Inl e), s2,
             New_iterator w h # (ev1 @ Start v # ev2)
               @ (if is_Exception e then [Log_exception e] else []) @ [Stop])"
    if t: "(if vam_url s = Some [] then get_vam_info dev s else (Inr None, s, []))
            = (Inr u, s1, ev1)" "vam_url s1 = Some v" "dec_start dev v = None"
       "body s1 = (Raised e, s2, ev2)"
    for u s1 ev1 v e s2 ev2
    by (rule raised [OF inferences_try_block_raises [where body = body, OF t]])
  show "get_inferences dev s body =
            ((case dec_stop dev of Some e' \<Rightarrow> Inl e' | None \<Rightarrow> Inr ()), s2,
             New_iterator w h # (ev1 @ Start v # ev2) @ [Stop])"
    if t: "(if vam_url s = Some [] then get_vam_info dev s else (Inr None, s, []))
            = (Inr u, s1, ev1)" "vam_url s1 = Some v" "dec_start dev v = None"
       "body s1 = (x, s2, ev2)" "x = Completed \<or> x = Early_exit"
    for u s1 ev1 v x s2 ev2
    by (rule returned [OF inferences_try_block_returns [where body = body, OF t]])
qed

theorem scopes_release_witness:
  "dev_connect (answering ''203.0.113.9'' video_response) = None
   \<and> dev_logout (answering ''203.0.113.9'' video_response) = Inr True
   \<and> dec_stop (answering ''203.0.113.9'' video_response) = None
   \<and> preview_running sample_client \<and> vam_running sample_client
   \<and> preview_size (cur_resolution sample_client) = Some (1920, 1080)
   \<and> last (snd (connect (answering ''203.0.113.9'' video_response) failing_body)) = Logout
   \<and> fst (connect (answering ''203.0.113.9'' video_response) failing_body)
       = Inl (Transport_error ''stream closed'')
   \<and> get_inferences (answering ''203.0.113.9'' video_response) sample_client failing_body
       = (Inl (Transport_error ''stream closed''), sample_client,
          [New_iterator 1920 1080, Start ''rtsp://203.0.113.9:8900/live'',
           Log_exception (Transport_error ''stream closed''), Stop])
   \<and> dev_connect dropping = None
   \<and> dev_logout dropping = Inl (Transport_error ''connection lost'')
   \<and> fst (connect dropping failing_body) = Inl (Transport_error ''connection lost'')"
proof -
  let ?D = "answering ''203.0.113.9'' video_response"
  have connected: "dev_connect ?D = None" and released: "dev_logout ?D = Inr True"
    and stopped: "dec_stop ?D = None"
    by (simp_all add: answering_def)
  have running: "preview_running sample_client \<and> vam_running sample_client
      \<and> preview_size (cur_resolution sample_client) = Some (1920, 1080)"
    by (simp add: sample_client_def preview_size_def)
  have target:
    "(if vam_url sample_client = Some [] then get_vam_info ?D sample_client
      else (Inr None, sample_client, [])) = (Inr None, sample_client, [])
      \<and> vam_url sample_client = Some ''rtsp://203.0.113.9:8900/live''
      \<and> dec_start ?D ''rtsp://203.0.113.9:8900/live'' = None
      \<and> failing_body sample_client
           = (Raised (Transport_error ''stream closed''), sample_client, [])"
    by (simp add: sample_client_def answering_def failing_body_def)
  have refreshed: "fst (get_supported_params ?D init) = Inr True"
    by (simp add: get_supported_params_def answering_def video_response_def getitem_def
        Let_def)
  have tried: "fst (connect_try ?D failing_body) = Inl (Transport_error ''stream closed'')"
    using refreshed
    by (cases "get_supported_params ?D init" rule: prod_cases3)
       (simp add: connect_try_def failing_body_def)
  note t = scopes_release [where dev = ?D and body = failing_body and s = sample_client
      and w = 1920 and h = 1080]
  note tc = t [THEN conjunct1, THEN mp, OF connected]
  note a = tc [THEN conjunct1]
  note b = tc [THEN conjunct2, THEN conjunct1, THEN spec, THEN mp, OF released]
  note tg = t [THEN conjunct2, THEN mp, OF running]
  note raised = tg [THEN conjunct2, THEN conjunct2, THEN conjunct2, THEN conjunct2,
      THEN conjunct2, THEN conjunct2, THEN conjunct2, THEN conjunct1,
      THEN spec, THEN spec, THEN spec, THEN spec, THEN spec, THEN spec, THEN spec,
      THEN mp, OF target]
  from raised have c: "get_inferences ?D sample_client failing_body
       = (Inl (Transport_error ''stream closed''), sample_client,
          [New_iterator 1920 1080, Start ''rtsp://203.0.113.9:8900/live'',
           Log_exception (Transport_error ''stream closed''), Stop])"
    by (simp add: stopped)
  have lost: "dev_connect dropping = None"
    "dev_logout dropping = Inl (Transport_error ''connection lost'')"
    by (simp_all add: dropping_def answering_def)
  note td = scopes_release [where dev = dropping and body = failing_body
      and s = sample_client and w = 1920 and h = 1080, THEN conjunct1, THEN mp, OF lost(1)]
  note d = td [THEN conjunct2, THEN conjunct2, THEN conjunct1, THEN spec, THEN mp,
      OF lost(2)]
  from connected released stopped running a b tried c lost d show ?thesis
    by (simp only: simp_thms)
qed

end
